theory Spec2Isabelle
  imports Complex_Main "HOL-Library.Word"
begin

section \<open>Python values and exceptions\<close>

text \<open>
  The repository is Python. A string is modelled as \<open>string\<close>: a \<open>char\<close> stands for a code
  point below 256, so the texts of this model are the texts over the Latin-1 repertoire.
  An exception is a value of \<open>exc\<close> that carries its message; a function that can raise
  returns \<open>exc + 'a\<close>, with \<open>Inl\<close> for the exception.
\<close>

datatype exc =
    Exception string
  | ValueError string
  | TypeError string
  | KeyError string
  | IndexError string
  | AttributeError string
  | UnicodeDecodeError string
  | OSError string

text \<open>\<open>str(e)\<close>: the message; a \<open>KeyError\<close> prints the \<open>repr\<close> of its key.\<close>

fun exc_str :: "exc \<Rightarrow> string" where
  "exc_str (Exception m) = m"
| "exc_str (ValueError m) = m"
| "exc_str (TypeError m) = m"
| "exc_str (KeyError k) = [CHR 0x27] @ k @ [CHR 0x27]"
| "exc_str (IndexError m) = m"
| "exc_str (AttributeError m) = m"
| "exc_str (UnicodeDecodeError m) = m"
| "exc_str (OSError m) = m"

text \<open>The values that a payload or a metadata dictionary holds; a dictionary is a map.\<close>

datatype pyval = VStr string | VInt int | VNone

type_synonym pydict = "string \<rightharpoonup> pyval"

text \<open>\<open>d.get(key, default)\<close>.\<close>

definition dict_get :: "pydict \<Rightarrow> string \<Rightarrow> pyval \<Rightarrow> pyval" where
  "dict_get d key dflt = (case d key of Some v \<Rightarrow> v | None \<Rightarrow> dflt)"

section \<open>Strings\<close>

text \<open>
  \<open>str.strip()\<close> and \<open>str.split()\<close> without arguments use Python's whitespace: below 256
  these are the code points 9 to 13, 28 to 32, 133 and 160.
\<close>

definition is_space :: "char \<Rightarrow> bool" where
  "is_space c = (let n = (of_char c :: nat) in
     (9 \<le> n \<and> n \<le> 13) \<or> (28 \<le> n \<and> n \<le> 32) \<or> n = 133 \<or> n = 160)"

definition str_strip :: "string \<Rightarrow> string" where
  "str_strip s = rev (dropWhile is_space (rev (dropWhile is_space s)))"

text \<open>\<open>str.split()\<close>: the maximal runs of non-whitespace, in order; \<open>cur\<close> is the run being read.\<close>

fun words_acc :: "string \<Rightarrow> string \<Rightarrow> string list" where
  "words_acc cur [] = (if cur = [] then [] else [cur])"
| "words_acc cur (c # cs) =
     (if is_space c then (if cur = [] then words_acc [] cs else cur # words_acc [] cs)
      else words_acc (cur @ [c]) cs)"

definition str_split :: "string \<Rightarrow> string list" where
  "str_split s = words_acc [] s"

text \<open>\<open>sep.join(xs)\<close>.\<close>

fun str_join :: "string \<Rightarrow> string list \<Rightarrow> string" where
  "str_join sep [] = []"
| "str_join sep [x] = x"
| "str_join sep (x # y # ys) = x @ sep @ str_join sep (y # ys)"

text \<open>\<open>s.startswith(p)\<close>, on strings and on bytes, and \<open>needle in s\<close>.\<close>

fun startswith :: "'a list \<Rightarrow> 'a list \<Rightarrow> bool" where
  "startswith s [] = True"
| "startswith [] (p # ps) = False"
| "startswith (c # cs) (p # ps) = (c = p \<and> startswith cs ps)"

fun str_contains :: "string \<Rightarrow> string \<Rightarrow> bool" where
  "str_contains [] needle = (needle = [])"
| "str_contains (c # cs) needle = (startswith (c # cs) needle \<or> str_contains cs needle)"

text \<open>\<open>str.lower()\<close> below 256: the ASCII capitals and the Latin-1 capitals (not the
  multiplication sign) move up by 32.\<close>

definition char_lower :: "char \<Rightarrow> char" where
  "char_lower c = (let n = (of_char c :: nat) in
     if (65 \<le> n \<and> n \<le> 90) \<or> (192 \<le> n \<and> n \<le> 222 \<and> n \<noteq> 215) then char_of (n + 32) else c)"

definition str_lower :: "string \<Rightarrow> string" where
  "str_lower s = map char_lower s"

text \<open>The decimal digits of a number, as an f-string prints it.\<close>

function str_of_nat :: "nat \<Rightarrow> string" where
  "str_of_nat n =
     (if n < 10 then [char_of (48 + n)] else str_of_nat (n div 10) @ [char_of (48 + n mod 10)])"
  by pat_completeness auto
termination
  by (relation "measure (\<lambda>n. n)") auto

declare str_of_nat.simps [simp del]

definition str_of_int :: "int \<Rightarrow> string" where
  "str_of_int i = (if i < 0 then CHR ''-'' # str_of_nat (nat (- i)) else str_of_nat (nat i))"

text \<open>\<open>str.splitlines()\<close>: below 256 a line ends at the code points 10 to 13, 28 to 30 and
  133, and a carriage return followed by a line feed ends one line, not two.\<close>

definition is_linebreak :: "char \<Rightarrow> bool" where
  "is_linebreak c = (let n = (of_char c :: nat) in
     (10 \<le> n \<and> n \<le> 13) \<or> (28 \<le> n \<and> n \<le> 30) \<or> n = 133)"

fun lines_acc :: "string \<Rightarrow> string \<Rightarrow> string list" where
  "lines_acc cur [] = (if cur = [] then [] else [cur])"
| "lines_acc cur [c] = (if is_linebreak c then [cur] else [cur @ [c]])"
| "lines_acc cur (c # d # cs) =
     (if c = CHR 0x0D \<and> d = CHR 0x0A then cur # lines_acc [] cs
      else if is_linebreak c then cur # lines_acc [] (d # cs)
      else lines_acc (cur @ [c]) (d # cs))"

definition str_splitlines :: "string \<Rightarrow> string list" where
  "str_splitlines s = lines_acc [] s"

text \<open>
  \<open>pathlib.Path(p).name\<close> and \<open>.suffix\<close> on a POSIX path: the name is the last component
  that is neither empty nor a single dot; the suffix starts at the last dot of the name,
  when that dot is neither its first nor its last character.
\<close>

fun split_on :: "char \<Rightarrow> string \<Rightarrow> string \<Rightarrow> string list" where
  "split_on sep cur [] = [cur]"
| "split_on sep cur (c # cs) =
     (if c = sep then cur # split_on sep [] cs else split_on sep (cur @ [c]) cs)"

definition path_name :: "string \<Rightarrow> string" where
  "path_name p =
     (let parts = filter (\<lambda>c. c \<noteq> [] \<and> c \<noteq> ''.'') (split_on CHR ''/'' [] p)
      in if parts = [] then [] else last parts)"

fun rfind :: "char \<Rightarrow> string \<Rightarrow> nat option" where
  "rfind c [] = None"
| "rfind c (x # xs) =
     (case rfind c xs of Some i \<Rightarrow> Some (Suc i)
      | None \<Rightarrow> if x = c then Some 0 else None)"

definition path_suffix :: "string \<Rightarrow> string" where
  "path_suffix p =
     (let name = path_name p in
      case rfind CHR ''.'' name of
        None \<Rightarrow> []
      | Some i \<Rightarrow> if 0 < i \<and> i + 1 < length name then drop i name else [])"

section \<open>The chunker\<close>

text \<open>
  \<open>range(start, stop, step)\<close>: a zero step raises \<open>ValueError\<close>; a positive step counts up
  while below \<open>stop\<close>, a negative one counts down while above it.
\<close>

function range_up :: "int \<Rightarrow> int \<Rightarrow> int \<Rightarrow> int list" where
  "range_up i stop step = (if 0 < step \<and> i < stop then i # range_up (i + step) stop step else [])"
  by pat_completeness auto
termination
  by (relation "measure (\<lambda>(i, stop, step). nat (stop - i))") auto

declare range_up.simps [simp del]

function range_down :: "int \<Rightarrow> int \<Rightarrow> int \<Rightarrow> int list" where
  "range_down i stop step = (if step < 0 \<and> stop < i then i # range_down (i + step) stop step else [])"
  by pat_completeness auto
termination
  by (relation "measure (\<lambda>(i, stop, step). nat (i - stop))") auto

declare range_down.simps [simp del]

definition py_range :: "int \<Rightarrow> int \<Rightarrow> int \<Rightarrow> exc + int list" where
  "py_range start stop step =
     (if step = 0 then Inl (ValueError ''range() arg 3 must not be zero'')
      else if 0 < step then Inr (range_up start stop step)
      else Inr (range_down start stop step))"

text \<open>\<open>xs[a:b]\<close>: a negative index counts from the end, and both ends are clamped.\<close>

definition clamp_index :: "int \<Rightarrow> int \<Rightarrow> nat" where
  "clamp_index n k = nat (if k < 0 then max 0 (n + k) else min k n)"

definition py_slice :: "'a list \<Rightarrow> int \<Rightarrow> int \<Rightarrow> 'a list" where
  "py_slice xs a b =
     (let n = int (length xs); lo = clamp_index n a; hi = clamp_index n b
      in take (hi - lo) (drop lo xs))"

text \<open>
  \<open>VectorDatabase.chunk_text\<close>. The body of its \<open>for\<close> loop is \<open>chunk_loop\<close>, over the
  indices that \<open>range\<close> yields; the \<open>break\<close> is the return of \<open>chunks'\<close>.
\<close>

fun chunk_loop :: "string list \<Rightarrow> int \<Rightarrow> int list \<Rightarrow> string list \<Rightarrow> string list" where
  "chunk_loop words chunk_size [] chunks = chunks"
| "chunk_loop words chunk_size (i # is) chunks =
     (let chunk_words = py_slice words i (i + chunk_size);
          chunk = str_join '' '' chunk_words;
          chunks' = (if str_strip chunk \<noteq> [] then chunks @ [str_strip chunk] else chunks)
      in if i + chunk_size \<ge> int (length words) then chunks'
         else chunk_loop words chunk_size is chunks')"

definition chunk_text :: "string \<Rightarrow> int \<Rightarrow> int \<Rightarrow> exc + string list" where
  "chunk_text text chunk_size overlap =
     (if str_strip text = [] then Inr []
      else let words = str_split text in
        if int (length words) \<le> chunk_size then Inr [text]
        else (case py_range 0 (int (length words)) (chunk_size - overlap) of
                Inl e \<Rightarrow> Inl e
              | Inr is \<Rightarrow> Inr (chunk_loop words chunk_size is [])))"

text \<open>
  Notions that the statements about the chunker use. A word is a non-empty string without
  whitespace. \<open>windows ws sz step i\<close> are the windows of \<open>sz\<close> elements of \<open>ws\<close> that start
  at \<open>i\<close>, \<open>i + step\<close>, ... up to the first one that reaches the end of \<open>ws\<close>.
  \<open>reassemble overlap chunks\<close> puts the words of the chunks together again: all the words of
  the first chunk, and the words of every later chunk but its first \<open>overlap\<close> ones.
\<close>

definition is_word :: "string \<Rightarrow> bool" where
  "is_word w = (w \<noteq> [] \<and> list_all (\<lambda>c. \<not> is_space c) w)"

function windows :: "'a list \<Rightarrow> nat \<Rightarrow> nat \<Rightarrow> nat \<Rightarrow> 'a list list" where
  "windows ws sz step i =
     (if 0 < step \<and> i + sz < length ws
      then take sz (drop i ws) # windows ws sz step (i + step)
      else [take sz (drop i ws)])"
  by pat_completeness auto
termination
  by (relation "measure (\<lambda>(ws, sz, step, i). length ws - i)") auto

declare windows.simps [simp del]

definition reassemble :: "nat \<Rightarrow> string list \<Rightarrow> string list" where
  "reassemble overlap chunks =
     (case chunks of [] \<Rightarrow> []
      | c # rest \<Rightarrow> str_split c @ concat (map (\<lambda>d. drop overlap (str_split d)) rest))"

section \<open>The collaborators\<close>

text \<open>
  The parsing libraries, the embedding model, the vector store, the language model, the
  clock, the source of identifiers and the file system are outside the repository. The
  code calls them; the model takes them as the fields of an environment \<open>env\<close>, and each
  call that can raise returns a sum.
  \<^item> A file is its bytes; \<open>fs\<close> maps a path to the file there, if any.
  \<^item> A PDF reader raises or yields the pages; \<open>extract_text()\<close> of a page raises, or yields
    \<open>None\<close> or a string.
  \<^item> \<open>Document(path)\<close> raises or yields the paragraphs' texts and the tables, a table being
    its rows and a row the texts of its cells.
  \<^item> A decoder raises (\<open>UnicodeDecodeError\<close> or anything else) or yields the text.
  \<^item> \<open>encode\<close> is \<open>SentenceTransformer.encode\<close>, \<open>client_upsert\<close> and \<open>client_search\<close> are
    the Qdrant client's \<open>upsert\<close> and \<open>search\<close> on a collection, here the list of its points.
  \<^item> \<open>uuid4 n\<close> is the \<open>n\<close>-th identifier that \<open>uuid.uuid4()\<close> hands out.
  \<^item> \<open>now_isoformat n\<close> is what the \<open>n\<close>-th evaluation of \<open>datetime.now().isoformat()\<close>
    yields.
  \<^item> \<open>chat_completions_create model system user max_tokens temperature\<close> raises or yields
    the \<open>message.content\<close> of each choice of the response.
  The configuration values the code reads are fields too.
\<close>

type_synonym byte = "8 word"

type_synonym pdf_page = "exc + string option"

type_synonym table = "string list list"

record docx =
  paragraphs :: "string list"
  tables :: "table list"

record point =
  point_id :: string
  vector :: "real list"
  payload :: pydict

record scored_point =
  sp_payload :: pydict
  sp_score :: real

type_synonym query_filter = "(string \<times> pyval) list"

record env =
  fs :: "string \<rightharpoonup> byte list"
  pypdf2_reader :: "byte list \<Rightarrow> exc + pdf_page list"
  pypdf_reader :: "byte list \<Rightarrow> exc + pdf_page list"
  docx_document :: "byte list \<Rightarrow> exc + docx"
  decode_utf8 :: "byte list \<Rightarrow> exc + string"
  decode_utf16 :: "byte list \<Rightarrow> exc + string"
  decode_cp1252 :: "byte list \<Rightarrow> exc + string"
  encode :: "string list \<Rightarrow> exc + real list list"
  client_upsert :: "point list \<Rightarrow> point list \<Rightarrow> exc + point list"
  client_search ::
    "point list \<Rightarrow> real list \<Rightarrow> int \<Rightarrow> query_filter option \<Rightarrow> real \<Rightarrow> exc + scored_point list"
  uuid4 :: "nat \<Rightarrow> string"
  now_isoformat :: "nat \<Rightarrow> string"
  chat_completions_create ::
    "string \<Rightarrow> string \<Rightarrow> string \<Rightarrow> nat \<Rightarrow> real \<Rightarrow> exc + string option list"
  max_file_size_mb :: int
  config_chunk_size :: int
  config_chunk_overlap :: int
  groq_model :: string

text \<open>
  What the program changes: the collection, the counter of identifiers handed out, the
  number of times the clock was read, the conversation history, and (to state that a call
  did not happen) the arguments of every call of the embedding model so far.
\<close>

record state =
  collection :: "point list"
  encode_calls :: "string list list"
  uuid_counter :: nat
  clock_reads :: nat
  conversation_history :: "(string \<times> string) list"

section \<open>The extractor\<close>

text \<open>\<open>utils.config\<close>: \<open>validate_file_type\<close>, and \<open>validate_file_size\<close>, where \<open>getsize\<close> of a
  missing file raises \<open>OSError\<close> and the answer is \<open>False\<close>.\<close>

definition supported_file_types :: "string list" where
  "supported_file_types = [''.pdf'', ''.docx'', ''.txt'']"

definition validate_file_type :: "string \<Rightarrow> bool" where
  "validate_file_type filename = (str_lower (path_suffix filename) \<in> set supported_file_types)"

definition validate_file_size :: "env \<Rightarrow> string \<Rightarrow> int \<Rightarrow> bool" where
  "validate_file_size E file_path max_size_mb =
     (case fs E file_path of
        None \<Rightarrow> False
      | Some bs \<Rightarrow> int (length bs) \<le> max_size_mb * 1024 * 1024)"

subsection \<open>PDF\<close>

definition pdf_magic :: "byte list" where
  "pdf_magic = [0x25, 0x50, 0x44, 0x46, 0x2D]"

text \<open>The loop over the pages of one reader: a page that raises, or has no text but
  whitespace, is skipped.\<close>

fun pdf_page_loop :: "nat \<Rightarrow> pdf_page list \<Rightarrow> string \<Rightarrow> string" where
  "pdf_page_loop page_num [] text = text"
| "pdf_page_loop page_num (page # pages) text =
     (case page of
        Inr (Some page_text) \<Rightarrow>
          if page_text \<noteq> [] \<and> str_strip page_text \<noteq> []
          then pdf_page_loop (page_num + 1) pages
                 (text @ [CHR 0x0A] @ ''--- Page '' @ str_of_nat (page_num + 1) @ '' ---''
                    @ [CHR 0x0A] @ page_text @ [CHR 0x0A])
          else pdf_page_loop (page_num + 1) pages text
      | _ \<Rightarrow> pdf_page_loop (page_num + 1) pages text)"

text \<open>One \<open>try\<close> block of \<open>_extract_pdf_text\<close>: it returns, or control falls through to the
  code after it with the variables \<open>text\<close>, \<open>metadata\<close> and the error it caught, if any.\<close>

datatype pdf_attempt_result =
    Returned "string \<times> pydict"
  | Fell_through string pydict "string option"

definition pdf_attempt ::
  "string \<Rightarrow> (byte list \<Rightarrow> exc + pdf_page list) \<Rightarrow> byte list \<Rightarrow> string \<Rightarrow> pydict
     \<Rightarrow> pdf_attempt_result" where
  "pdf_attempt method reader bs text metadata =
     (case reader bs of
        Inl e \<Rightarrow> Fell_through text metadata (Some (exc_str e))
      | Inr pages \<Rightarrow>
          if length pages = 0 then Fell_through text metadata (Some ''PDF has no pages'')
          else
            let metadata' = metadata(''pages'' \<mapsto> VInt (int (length pages)),
                                     ''method'' \<mapsto> VStr method);
                text' = pdf_page_loop 0 pages []
            in if str_strip text' \<noteq> [] then Returned (str_strip text', metadata')
               else Fell_through text' metadata' None)"

definition extract_pdf_text :: "env \<Rightarrow> string \<Rightarrow> exc + string \<times> pydict" where
  "extract_pdf_text E file_path =
     (case fs E file_path of
        None \<Rightarrow> Inl (Exception (''PDF file not found: '' @ file_path))
      | Some bs \<Rightarrow>
          if length bs = 0 then Inl (Exception ''PDF file is empty (0 bytes)'')
          else if \<not> startswith (take 5 bs) pdf_magic
          then Inl (Exception ''File is not a valid PDF (missing PDF header)'')
          else
            (case pdf_attempt ''PyPDF2'' (pypdf2_reader E) bs []
                    [''pages'' \<mapsto> VInt 0, ''method'' \<mapsto> VStr ''unknown''] of
               Returned r \<Rightarrow> Inr r
             | Fell_through text1 metadata1 pypdf2_error \<Rightarrow>
                 (case pdf_attempt ''pypdf'' (pypdf_reader E) bs text1 metadata1 of
                    Returned r \<Rightarrow> Inr r
                  | Fell_through text2 metadata2 pypdf_error \<Rightarrow>
                      if str_strip text2 = [] then
                        Inl (Exception
                          (''Both PDF readers failed to extract text. ''
                           @ (case pypdf2_error of
                                Some e \<Rightarrow> if e \<noteq> [] then ''PyPDF2: '' @ e @ ''. '' else []
                              | None \<Rightarrow> [])
                           @ (case pypdf_error of
                                Some e \<Rightarrow> ''pypdf: '' @ e @ ''. ''
                              | None \<Rightarrow> [])
                           @ ''This might be a scanned PDF, encrypted PDF, or the text might be embedded as images.''))
                      else Inr (str_strip text2, metadata2))))"

subsection \<open>Word documents\<close>

text \<open>The four loops of \<open>_extract_docx_text\<close>, each with the variables it updates.\<close>

fun paragraph_loop :: "string list \<Rightarrow> string \<Rightarrow> nat \<Rightarrow> string \<times> nat" where
  "paragraph_loop [] text paragraph_count = (text, paragraph_count)"
| "paragraph_loop (p # ps) text paragraph_count =
     (if str_strip p \<noteq> [] then paragraph_loop ps (text @ p @ [CHR 0x0A]) (paragraph_count + 1)
      else paragraph_loop ps text paragraph_count)"

fun cell_loop :: "string list \<Rightarrow> string list \<Rightarrow> string list" where
  "cell_loop [] row_text = row_text"
| "cell_loop (cell # cells) row_text =
     (let cell_text = str_strip cell
      in if cell_text \<noteq> [] then cell_loop cells (row_text @ [cell_text])
         else cell_loop cells row_text)"

fun row_loop :: "string list list \<Rightarrow> string \<Rightarrow> string" where
  "row_loop [] text = text"
| "row_loop (row # rows) text =
     (let row_text = cell_loop row []
      in if row_text \<noteq> [] then row_loop rows (text @ str_join '' | '' row_text @ [CHR 0x0A])
         else row_loop rows text)"

fun table_loop :: "table list \<Rightarrow> nat \<Rightarrow> string \<Rightarrow> string \<times> nat" where
  "table_loop [] table_count text = (text, table_count)"
| "table_loop (t # ts) table_count text =
     (let table_count' = table_count + 1;
          text' = text @ [CHR 0x0A] @ ''--- Table '' @ str_of_nat table_count' @ '' ---'' @ [CHR 0x0A]
      in table_loop ts table_count' (row_loop t text'))"

text \<open>The body of the \<open>try\<close>, once the document is parsed, then the body from the start,
  then the function with its handler, which passes on an exception whose message has
  \<open>No text found\<close> in it and wraps any other.\<close>

definition docx_collect :: "docx \<Rightarrow> exc + string \<times> pydict" where
  "docx_collect doc =
     (let (text1, paragraph_count) = paragraph_loop (paragraphs doc) [] 0;
          (text2, table_count) = table_loop (tables doc) 0 text1;
          metadata = [''paragraphs'' \<mapsto> VInt (int paragraph_count),
                      ''tables'' \<mapsto> VInt (int table_count),
                      ''method'' \<mapsto> VStr ''python-docx'']
      in if str_strip text2 = [] then Inl (Exception ''No text found in DOCX document'')
         else Inr (str_strip text2, metadata))"

definition docx_try :: "env \<Rightarrow> string \<Rightarrow> exc + string \<times> pydict" where
  "docx_try E file_path =
     (case fs E file_path of
        None \<Rightarrow> Inl (Exception (''DOCX file not found: '' @ file_path))
      | Some bs \<Rightarrow>
          if length bs = 0 then Inl (Exception ''DOCX file is empty (0 bytes)'')
          else (case docx_document E bs of
                  Inl e \<Rightarrow> Inl e
                | Inr doc \<Rightarrow> docx_collect doc))"

definition extract_docx_text :: "env \<Rightarrow> string \<Rightarrow> exc + string \<times> pydict" where
  "extract_docx_text E file_path =
     (case docx_try E file_path of
        Inl e \<Rightarrow>
          if str_contains (exc_str e) ''No text found'' then Inl e
          else Inl (Exception (''Failed to extract text from DOCX: '' @ exc_str e))
      | Inr r \<Rightarrow> Inr r)"

subsection \<open>Plain text\<close>

text \<open>
  \<open>open(path, 'r', encoding=e).read()\<close> decodes the bytes and turns every carriage return,
  alone or before a line feed, into a line feed. Latin-1, which \<open>iso-8859-1\<close> names too,
  maps each byte to the code point of the same number; the other decoders are the
  environment's.
\<close>

definition encodings :: "string list" where
  "encodings = [''utf-8'', ''utf-16'', ''latin-1'', ''cp1252'', ''iso-8859-1'']"

definition decode_latin1 :: "byte list \<Rightarrow> string" where
  "decode_latin1 bs = map (\<lambda>b. char_of (unat b)) bs"

definition decode :: "env \<Rightarrow> string \<Rightarrow> byte list \<Rightarrow> exc + string" where
  "decode E encoding bs =
     (if encoding = ''utf-8'' then decode_utf8 E bs
      else if encoding = ''utf-16'' then decode_utf16 E bs
      else if encoding = ''cp1252'' then decode_cp1252 E bs
      else Inr (decode_latin1 bs))"

fun universal_newlines :: "string \<Rightarrow> string" where
  "universal_newlines [] = []"
| "universal_newlines [c] = [if c = CHR 0x0D then CHR 0x0A else c]"
| "universal_newlines (c # d # cs) =
     (if c = CHR 0x0D \<and> d = CHR 0x0A then CHR 0x0A # universal_newlines cs
      else if c = CHR 0x0D then CHR 0x0A # universal_newlines (d # cs)
      else c # universal_newlines (d # cs))"

definition read_text :: "env \<Rightarrow> string \<Rightarrow> byte list \<Rightarrow> exc + string" where
  "read_text E encoding bs =
     (case decode E encoding bs of Inl e \<Rightarrow> Inl e | Inr raw \<Rightarrow> Inr (universal_newlines raw))"

text \<open>The loop over the encodings still to try.\<close>

fun txt_loop :: "env \<Rightarrow> byte list \<Rightarrow> string list \<Rightarrow> exc + string \<times> pydict" where
  "txt_loop E bs [] = Inl (Exception ''Failed to decode text file with any supported encoding'')"
| "txt_loop E bs (encoding # rest) =
     (case read_text E encoding bs of
        Inr text \<Rightarrow>
          Inr (str_strip text,
               [''encoding'' \<mapsto> VStr encoding,
                ''lines'' \<mapsto> VInt (if text \<noteq> [] then int (length (str_splitlines text)) else 0),
                ''method'' \<mapsto> VStr ''plain_text''])
      | Inl (UnicodeDecodeError m) \<Rightarrow> txt_loop E bs rest
      | Inl e \<Rightarrow>
          if encoding = last encodings
          then Inl (Exception (''Failed to read text file: '' @ exc_str e))
          else txt_loop E bs rest)"

definition extract_txt_text :: "env \<Rightarrow> string \<Rightarrow> exc + string \<times> pydict" where
  "extract_txt_text E file_path =
     (case fs E file_path of
        None \<Rightarrow> Inl (Exception (''TXT file not found: '' @ file_path))
      | Some bs \<Rightarrow>
          if length bs = 0
          then Inr ([], [''encoding'' \<mapsto> VStr ''utf-8'', ''lines'' \<mapsto> VInt 0,
                         ''method'' \<mapsto> VStr ''plain_text''])
          else txt_loop E bs encodings)"

subsection \<open>\<open>DocumentProcessor.extract_text\<close>\<close>

record extraction_result =
  er_success :: bool
  er_text :: string
  er_filename :: string
  er_file_type :: string
  er_error :: "string option"
  er_metadata :: pydict

definition extract_by_type :: "env \<Rightarrow> string \<Rightarrow> string \<Rightarrow> (exc + string \<times> pydict) option" where
  "extract_by_type E file_type file_path =
     (if file_type = ''.pdf'' then Some (extract_pdf_text E file_path)
      else if file_type = ''.docx'' then Some (extract_docx_text E file_path)
      else if file_type = ''.txt'' then Some (extract_txt_text E file_path)
      else None)"

definition extract_text :: "env \<Rightarrow> string \<Rightarrow> string \<Rightarrow> extraction_result" where
  "extract_text E file_path filename =
     (let result = \<lparr>er_success = False, er_text = [], er_filename = filename,
                     er_file_type = str_lower (path_suffix filename),
                     er_error = None, er_metadata = Map.empty\<rparr>
      in if \<not> validate_file_type filename
         then result\<lparr>er_error := Some (''Unsupported file type: '' @ er_file_type result)\<rparr>
         else if \<not> validate_file_size E file_path (max_file_size_mb E)
         then result\<lparr>er_error :=
                 Some (''File too large (max '' @ str_of_int (max_file_size_mb E) @ ''MB)'')\<rparr>
         else
           (case extract_by_type E (er_file_type result) file_path of
              None \<Rightarrow>
                result\<lparr>er_error := Some (''Unsupported file type: '' @ er_file_type result)\<rparr>
            | Some (Inl e) \<Rightarrow> result\<lparr>er_error := Some (exc_str e)\<rparr>
            | Some (Inr (text, metadata)) \<Rightarrow>
                if text \<noteq> [] \<and> str_strip text \<noteq> []
                then result\<lparr>er_success := True, er_text := text, er_metadata := metadata\<rparr>
                else result\<lparr>er_error := Some
                  ''No text could be extracted from the document. The file might be scanned, empty, or corrupted.''\<rparr>))"

subsection \<open>The rendering of a Word document, as the specification words it\<close>

text \<open>
  The non-empty paragraphs, each followed by a newline; then for table \<open>N\<close> (counted from
  1) the marker \<open>--- Table N ---\<close> on a line of its own after an empty line, and one line
  for each row that has a non-empty cell: the row's cells, stripped, the empty ones left
  out, joined by a bar between two spaces.
\<close>

definition row_cells :: "string list \<Rightarrow> string list" where
  "row_cells row = filter (\<lambda>c. c \<noteq> []) (map str_strip row)"

definition render_row :: "string list \<Rightarrow> string" where
  "render_row row =
     (if row_cells row = [] then [] else str_join '' | '' (row_cells row) @ [CHR 0x0A])"

definition table_marker :: "nat \<Rightarrow> string" where
  "table_marker n = [CHR 0x0A] @ ''--- Table '' @ str_of_nat n @ '' ---'' @ [CHR 0x0A]"

definition render_table :: "nat \<Rightarrow> table \<Rightarrow> string" where
  "render_table n t = table_marker n @ concat (map render_row t)"

definition render_paragraphs :: "string list \<Rightarrow> string" where
  "render_paragraphs ps =
     concat (map (\<lambda>p. p @ [CHR 0x0A]) (filter (\<lambda>p. str_strip p \<noteq> []) ps))"

definition render_tables :: "nat \<Rightarrow> table list \<Rightarrow> string" where
  "render_tables first ts =
     concat (map (\<lambda>(k, t). render_table (k + 1) t) (enumerate first ts))"

definition render_docx :: "docx \<Rightarrow> string" where
  "render_docx doc = render_paragraphs (paragraphs doc) @ render_tables 0 (tables doc)"

definition docx_metadata :: "docx \<Rightarrow> pydict" where
  "docx_metadata doc =
     [''paragraphs'' \<mapsto> VInt (int (length (filter (\<lambda>p. str_strip p \<noteq> []) (paragraphs doc)))),
      ''tables'' \<mapsto> VInt (int (length (tables doc))),
      ''method'' \<mapsto> VStr ''python-docx'']"

section \<open>The vector database\<close>

subsection \<open>\<open>VectorDatabase.add_document\<close>\<close>

text \<open>
  The metadata dictionary the caller passes, with the keys the function reads; a key that
  is absent is \<open>None\<close>. The chunk size and overlap are the integers of the configuration,
  the extra metadata is a dictionary.
\<close>

record doc_metadata =
  md_filename :: "pyval option"
  md_file_type :: "pyval option"
  md_upload_time :: "pyval option"
  md_chunk_size :: "int option"
  md_chunk_overlap :: "int option"
  md_extra_metadata :: "pydict option"

record add_result =
  ad_success :: bool
  ad_error :: "string option"
  ad_chunks_added :: nat
  ad_document_id :: "string option"
  ad_total_characters :: "nat option"

definition add_failure :: "string \<Rightarrow> add_result" where
  "add_failure msg = \<lparr>ad_success = False, ad_error = Some msg, ad_chunks_added = 0,
                        ad_document_id = None, ad_total_characters = None\<rparr>"

definition opt_get :: "'a option \<Rightarrow> 'a \<Rightarrow> 'a" where
  "opt_get v dflt = (case v of Some x \<Rightarrow> x | None \<Rightarrow> dflt)"

text \<open>The payload of chunk \<open>i\<close>: the dictionary display lists the seven fixed keys first and
  unpacks the extra metadata last, so an extra key overwrites a fixed key of the same name.
  The default of \<open>upload_time\<close> is evaluated for every chunk, whether the key is there or
  not: chunk \<open>i\<close> reads the clock for the \<open>i\<close>-th time since the loop began.\<close>

definition chunk_payload ::
  "env \<Rightarrow> doc_metadata \<Rightarrow> string \<Rightarrow> nat \<Rightarrow> nat \<Rightarrow> nat \<Rightarrow> string \<Rightarrow> pydict" where
  "chunk_payload E metadata document_id chunk_count first_clock i chunk =
     [''text'' \<mapsto> VStr chunk,
      ''chunk_id'' \<mapsto> VInt (int i),
      ''document_id'' \<mapsto> VStr document_id,
      ''document_name'' \<mapsto> opt_get (md_filename metadata) (VStr ''unknown''),
      ''file_type'' \<mapsto> opt_get (md_file_type metadata) (VStr ''unknown''),
      ''upload_time'' \<mapsto> opt_get (md_upload_time metadata) (VStr (now_isoformat E (first_clock + i))),
      ''chunk_count'' \<mapsto> VInt (int chunk_count)]
     ++ opt_get (md_extra_metadata metadata) Map.empty"

text \<open>The loop over \<open>enumerate(zip(chunks, embeddings))\<close>; the identifier of point \<open>i\<close> is the
  \<open>i\<close>-th one handed out after the document's.\<close>

fun points_loop ::
  "env \<Rightarrow> doc_metadata \<Rightarrow> string \<Rightarrow> nat \<Rightarrow> nat \<Rightarrow> nat \<Rightarrow> nat
     \<Rightarrow> (string \<times> real list) list \<Rightarrow> point list \<Rightarrow> point list" where
  "points_loop E metadata document_id chunk_count first_uuid first_clock i [] points = points"
| "points_loop E metadata document_id chunk_count first_uuid first_clock i
     ((chunk, embedding) # rest) points =
     points_loop E metadata document_id chunk_count first_uuid first_clock (i + 1) rest
       (points @ [\<lparr>point_id = uuid4 E (first_uuid + i), vector = embedding,
                    payload = chunk_payload E metadata document_id chunk_count first_clock i
                                chunk\<rparr>])"

definition add_document :: "env \<Rightarrow> state \<Rightarrow> string \<Rightarrow> doc_metadata \<Rightarrow> add_result \<times> state" where
  "add_document E st text metadata =
     (if str_strip text = [] then (add_failure ''Empty text provided'', st)
      else
        (case chunk_text text (opt_get (md_chunk_size metadata) 500)
                (opt_get (md_chunk_overlap metadata) 50) of
           Inl e \<Rightarrow> (add_failure (exc_str e), st)
         | Inr chunks \<Rightarrow>
             if chunks = [] then (add_failure ''No chunks generated from text'', st)
             else
               let st1 = st\<lparr>encode_calls := encode_calls st @ [chunks]\<rparr> in
               (case encode E chunks of
                  Inl e \<Rightarrow> (add_failure (exc_str e), st1)
                | Inr embeddings \<Rightarrow>
                    let document_id = uuid4 E (uuid_counter st1);
                        points = points_loop E metadata document_id (length chunks)
                                   (uuid_counter st1 + 1) (clock_reads st1) 0
                                   (zip chunks embeddings) [];
                        st2 = st1\<lparr>uuid_counter := uuid_counter st1 + 1 + length points,
                                  clock_reads := clock_reads st1 + length points\<rparr>
                    in (case client_upsert E (collection st2) points of
                          Inl e \<Rightarrow> (add_failure (exc_str e), st2)
                        | Inr coll \<Rightarrow>
                            (\<lparr>ad_success = True, ad_error = None,
                              ad_chunks_added = length chunks,
                              ad_document_id = Some document_id,
                              ad_total_characters = Some (length text)\<rparr>,
                             st2\<lparr>collection := coll\<rparr>)))))"

subsection \<open>\<open>VectorDatabase.search_similar\<close>\<close>

record search_result =
  sr_text :: pyval
  sr_score :: real
  sr_document_name :: pyval
  sr_document_id :: pyval
  sr_chunk_id :: pyval
  sr_file_type :: pyval
  sr_upload_time :: pyval

text \<open>The loop that formats the store's results; \<open>payload["text"]\<close> raises \<open>KeyError\<close> when the
  key is missing.\<close>

fun format_loop :: "scored_point list \<Rightarrow> search_result list \<Rightarrow> exc + search_result list" where
  "format_loop [] results = Inr results"
| "format_loop (r # rs) results =
     (case sp_payload r ''text'' of
        None \<Rightarrow> Inl (KeyError ''text'')
      | Some t \<Rightarrow>
          format_loop rs
            (results @ [\<lparr>sr_text = t, sr_score = sp_score r,
               sr_document_name = dict_get (sp_payload r) ''document_name'' (VStr ''unknown''),
               sr_document_id = dict_get (sp_payload r) ''document_id'' (VStr ''unknown''),
               sr_chunk_id = dict_get (sp_payload r) ''chunk_id'' (VInt 0),
               sr_file_type = dict_get (sp_payload r) ''file_type'' (VStr ''unknown''),
               sr_upload_time = dict_get (sp_payload r) ''upload_time'' (VStr ''unknown'')\<rparr>]))"

text \<open>The filter: none for \<open>None\<close> or an empty dictionary, else one condition per item.\<close>

definition build_filter :: "query_filter option \<Rightarrow> query_filter option" where
  "build_filter filter_conditions =
     (case filter_conditions of
        None \<Rightarrow> None
      | Some conditions \<Rightarrow> if conditions = [] then None else Some conditions)"

text \<open>Every exception inside the \<open>try\<close> ends in \<open>return []\<close>.\<close>

definition search_similar ::
  "env \<Rightarrow> state \<Rightarrow> string \<Rightarrow> int \<Rightarrow> real \<Rightarrow> query_filter option \<Rightarrow> search_result list \<times> state" where
  "search_similar E st query limit score_threshold filter_conditions =
     (if str_strip query = [] then ([], st)
      else
        let st1 = st\<lparr>encode_calls := encode_calls st @ [[query]]\<rparr> in
        (case encode E [query] of
           Inl e \<Rightarrow> ([], st1)
         | Inr [] \<Rightarrow> ([], st1)
         | Inr (query_embedding # _) \<Rightarrow>
             (case client_search E (collection st1) query_embedding limit
                     (build_filter filter_conditions) score_threshold of
                Inl e \<Rightarrow> ([], st1)
              | Inr search_result \<Rightarrow>
                  (case format_loop search_result [] of
                     Inl e \<Rightarrow> ([], st1)
                   | Inr results \<Rightarrow> (results, st1)))))"


definition search_contract :: "env \<Rightarrow> bool" where
  "search_contract E =
     (\<forall>coll v limit flt threshold rs.
        client_search E coll v limit flt threshold = Inr rs \<longrightarrow>
          int (length rs) \<le> max 0 limit
          \<and> (\<forall>r \<in> set rs. threshold \<le> sp_score r)
          \<and> sorted_wrt (\<lambda>a b. sp_score b \<le> sp_score a) rs)"


section \<open>The orchestrator\<close>

text \<open>
  The status messages start with an emoji, a code point that a \<open>char\<close> cannot hold. Each is
  written here as a bracketed sign; like the emoji, it has no letter in it.
\<close>

definition check_mark :: string where "check_mark = ''[+]''"

definition cross_mark :: string where "cross_mark = ''[-]''"

definition chart_mark :: string where "chart_mark = ''[#]''"

definition bulb_mark :: string where "bulb_mark = ''[!]''"

definition quoted :: "string \<Rightarrow> string" where
  "quoted s = [CHR 0x27] @ s @ [CHR 0x27]"

subsection \<open>\<open>ResearchAssistant.process_single_document\<close>\<close>

definition process_single_document :: "env \<Rightarrow> state \<Rightarrow> string \<Rightarrow> string \<Rightarrow> string \<times> state" where
  "process_single_document E st file_path filename =
     (let extraction_result = extract_text E file_path filename in
      if \<not> er_success extraction_result
      then (cross_mark @ '' Failed to process '' @ quoted filename @ '': ''
              @ (case er_error extraction_result of Some e \<Rightarrow> e | None \<Rightarrow> ''None''), st)
      else
        let extracted_text = er_text extraction_result;
            lines = map str_strip
                      (filter (\<lambda>line. str_strip line \<noteq> []) (str_splitlines extracted_text))
        in if lines = []
           then (cross_mark @ '' '' @ quoted filename
                   @ '' appears to be empty or contains no meaningful lines to process.'', st)
           else
             let metadata = \<lparr>md_filename = Some (VStr filename),
                   md_file_type = Some (VStr (er_file_type extraction_result)),
                   md_upload_time = Some (VStr (now_isoformat E (clock_reads st))),
                   md_chunk_size = Some (config_chunk_size E),
                   md_chunk_overlap = Some (config_chunk_overlap E),
                   md_extra_metadata = Some (er_metadata extraction_result)\<rparr>;
                 (db_result, st') =
                   add_document E (st\<lparr>clock_reads := clock_reads st + 1\<rparr>) extracted_text
                     metadata
             in if ad_success db_result
                then (case ad_total_characters db_result of
                        Some total_characters \<Rightarrow>
                          (check_mark @ '' Successfully processed '' @ quoted filename @ '': ''
                             @ str_of_nat (ad_chunks_added db_result) @ '' chunks added (''
                             @ str_of_nat total_characters @ '' characters)'', st')
                      | None \<Rightarrow>
                          (cross_mark @ '' Error processing '' @ quoted filename @ '': ''
                             @ exc_str (KeyError ''total_characters''), st'))
                else (cross_mark @ '' Failed to add '' @ quoted filename @ '' to database: ''
                        @ (case ad_error db_result of Some e \<Rightarrow> e | None \<Rightarrow> ''None''), st'))"

subsection \<open>\<open>ResearchAssistant.process_documents\<close>\<close>

text \<open>
  An uploaded file is a string (a path), an object with a \<open>name\<close> attribute, or something
  else, of which only what \<open>str\<close> prints matters.
\<close>

datatype upload = PathStr string | FileObj string | Unreadable string

fun upload_label :: "upload \<Rightarrow> string" where
  "upload_label (PathStr p) = p"
| "upload_label (FileObj n) = n"
| "upload_label (Unreadable s) = s"

fun upload_path :: "upload \<Rightarrow> string option" where
  "upload_path (PathStr p) = Some p"
| "upload_path (FileObj n) = Some n"
| "upload_path (Unreadable s) = None"

text \<open>The path, the file name and the bytes of an upload whose path exists.\<close>

definition resolve_upload :: "env \<Rightarrow> upload \<Rightarrow> (string \<times> string \<times> byte list) option" where
  "resolve_upload E file =
     (case upload_path file of
        None \<Rightarrow> None
      | Some p \<Rightarrow> (case fs E p of None \<Rightarrow> None | Some bs \<Rightarrow> Some (p, path_name p, bs)))"

definition upload_error :: "upload \<Rightarrow> string \<Rightarrow> string" where
  "upload_error file msg =
     cross_mark @ '' Error processing '' @ quoted (upload_label file) @ '': '' @ msg"

text \<open>The loop over the files, with \<open>results\<close> and \<open>successful_uploads\<close>.\<close>

fun documents_loop ::
  "env \<Rightarrow> upload list \<Rightarrow> state \<Rightarrow> string list \<Rightarrow> nat \<Rightarrow> string list \<times> nat \<times> state" where
  "documents_loop E [] st results successful_uploads = (results, successful_uploads, st)"
| "documents_loop E (file # files) st results successful_uploads =
     (case resolve_upload E file of
        None \<Rightarrow>
          documents_loop E files st
            (results @ [upload_error file ''Cannot read uploaded file: unsupported type''])
            successful_uploads
      | Some (file_path, filename, bs) \<Rightarrow>
          if length bs = 0
          then documents_loop E files st
                 (results @ [upload_error file ''Uploaded file is empty.'']) successful_uploads
          else
            let (result, st') = process_single_document E st file_path filename
            in documents_loop E files st' (results @ [result])
                 (if str_contains (str_lower result) ''successfully processed''
                  then successful_uploads + 1 else successful_uploads))"

definition summary :: "nat \<Rightarrow> nat \<Rightarrow> string" where
  "summary successful_uploads total_files =
     (if successful_uploads > 0
      then [CHR 0x0A, CHR 0x0A] @ chart_mark @ '' **Summary**: Successfully processed **''
             @ str_of_nat successful_uploads @ ''/'' @ str_of_nat total_files @ ''** files.''
             @ [CHR 0x0A, CHR 0x0A] @ check_mark
             @ '' Your documents are now available in the knowledge base.''
      else [CHR 0x0A, CHR 0x0A] @ cross_mark
             @ '' **Summary**: No files were successfully processed out of ''
             @ str_of_nat total_files @ '' files.''
             @ [CHR 0x0A, CHR 0x0A] @ bulb_mark
             @ '' **Tips**: Make sure your files are not corrupted, encrypted, or scanned images.'')"

definition process_documents :: "env \<Rightarrow> state \<Rightarrow> upload list \<Rightarrow> string \<times> state" where
  "process_documents E st files =
     (if files = [] then (''No files uploaded.'', st)
      else
        let (results, successful_uploads, st') = documents_loop E files st [] 0
        in (str_join [CHR 0x0A] results @ summary successful_uploads (length files), st'))"

subsection \<open>\<open>ResearchAssistant.generate_response\<close>\<close>

text \<open>\<open>"\n\n".join(context_texts)\<close> raises \<open>TypeError\<close> on the first item that is no string.\<close>

fun type_name :: "pyval \<Rightarrow> string" where
  "type_name (VStr s) = ''str''"
| "type_name (VInt n) = ''int''"
| "type_name VNone = ''NoneType''"

fun context_strings :: "nat \<Rightarrow> pyval list \<Rightarrow> exc + string list" where
  "context_strings i [] = Inr []"
| "context_strings i (VStr s # vs) =
     (case context_strings (i + 1) vs of Inl e \<Rightarrow> Inl e | Inr ss \<Rightarrow> Inr (s # ss))"
| "context_strings i (v # vs) =
     Inl (TypeError (''sequence item '' @ str_of_nat i @ '': expected str instance, ''
                       @ type_name v @ '' found''))"

text \<open>The first part of the \<open>try\<close>: the search and the two prompts.\<close>

definition build_prompts :: "env \<Rightarrow> state \<Rightarrow> string \<Rightarrow> (exc + string \<times> string) \<times> state" where
  "build_prompts E st query =
     (let (search_results, st1) = search_similar E st query 5 0 None;
          context_texts = map sr_text search_results
      in (case (if context_texts \<noteq> []
                then (case context_strings 0 context_texts of
                        Inl e \<Rightarrow> Inl e
                      | Inr ss \<Rightarrow> Inr (str_join [CHR 0x0A, CHR 0x0A] ss))
                else Inr ''No relevant context found.'') of
            Inl e \<Rightarrow> (Inl e, st1)
          | Inr context \<Rightarrow>
              (Inr (''You are an AI research assistant. Use the following context to answer the question.''
                      @ [CHR 0x0A]
                      @ ''If the context is not sufficient, say so clearly instead of guessing.''
                      @ [CHR 0x0A] @ ''Context:'' @ [CHR 0x0A] @ context,
                    ''Question: '' @ query), st1)))"

definition error_response :: "exc \<Rightarrow> string" where
  "error_response e = cross_mark @ '' Error generating response: '' @ exc_str e"

text \<open>\<open>response.choices[0].message.content.strip()\<close>: no choice raises \<open>IndexError\<close>, a
  content that is \<open>None\<close> raises \<open>AttributeError\<close>.\<close>

definition generate_response :: "env \<Rightarrow> state \<Rightarrow> string \<Rightarrow> string \<times> state" where
  "generate_response E st query =
     (case build_prompts E st query of
        (Inl e, st1) \<Rightarrow> (error_response e, st1)
      | (Inr (system_prompt, user_prompt), st1) \<Rightarrow>
          (case chat_completions_create E (groq_model E) system_prompt user_prompt 500 (7 / 10) of
             Inl e \<Rightarrow> (error_response e, st1)
           | Inr [] \<Rightarrow> (error_response (IndexError ''list index out of range''), st1)
           | Inr (None # _) \<Rightarrow>
               (error_response (AttributeError (quoted ''NoneType'' @ '' object has no attribute ''
                                                 @ quoted ''strip'')), st1)
           | Inr (Some content # _) \<Rightarrow>
               (let answer = str_strip content
                in (answer, st1\<lparr>conversation_history :=
                                   conversation_history st1 @ [(query, answer)]\<rparr>))))"

section \<open>A test double for the collaborators\<close>

text \<open>
  The statements below hold for every environment; to show them at concrete inputs, here
  is one. Its store is a reference one: it scores a point by the inner product of the
  query vector and the point's, keeps the points that satisfy every filter condition and
  reach the threshold, orders them by descending score and cuts the list at \<open>limit\<close>; its
  upsert adds the points at the end. Its UTF-8 decoder reads ASCII only and its UTF-16 and
  Windows-1252 decoders read nothing; its parsers know one PDF and one Word document; its
  embedding model maps every string to the same vector; its language model gives one fixed
  answer.
\<close>

definition ref_score :: "real list \<Rightarrow> point \<Rightarrow> real" where
  "ref_score v p = sum_list (map (\<lambda>(a, b). a * b) (zip v (vector p)))"

definition ref_matches :: "query_filter option \<Rightarrow> point \<Rightarrow> bool" where
  "ref_matches flt p =
     (case flt of None \<Rightarrow> True
      | Some conditions \<Rightarrow> list_all (\<lambda>(k, v). payload p k = Some v) conditions)"

definition ref_search ::
  "point list \<Rightarrow> real list \<Rightarrow> int \<Rightarrow> query_filter option \<Rightarrow> real \<Rightarrow> exc + scored_point list" where
  "ref_search coll v limit flt threshold =
     Inr (take (nat limit)
            (rev (sort_key sp_score
               (filter (\<lambda>r. threshold \<le> sp_score r)
                  (map (\<lambda>p. \<lparr>sp_payload = payload p, sp_score = ref_score v p\<rparr>)
                     (filter (ref_matches flt) coll))))))"

definition ascii_decoder :: "byte list \<Rightarrow> exc + string" where
  "ascii_decoder bs =
     (if list_all (\<lambda>b. b < 0x80) bs then Inr (decode_latin1 bs)
      else Inl (UnicodeDecodeError ''invalid start byte''))"

definition test_pdf :: "byte list" where
  "test_pdf = [0x25, 0x50, 0x44, 0x46, 0x2D, 0x31]"

definition test_docx_bytes :: "byte list" where
  "test_docx_bytes = [0x50, 0x4B, 0x03, 0x04]"

definition test_docx :: docx where
  "test_docx = \<lparr>paragraphs = [''Title'', ''  '', ''Body text''],
                 tables = [[[''a'', '' '', ''b ''], ['''', '' ''], [''c'']], []]\<rparr>"

definition test_fs :: "string \<rightharpoonup> byte list" where
  "test_fs = [''notes.txt'' \<mapsto> [0x68, 0x69, 0x20, 0x79, 0x6F, 0x75],
              ''cafe.txt'' \<mapsto> [0x63, 0x61, 0x66, 0xE9],
              ''empty.txt'' \<mapsto> [],
              ''blank.txt'' \<mapsto> [0x20, 0x0A],
              ''bad.pdf'' \<mapsto> [0x48, 0x54, 0x4D, 0x4C, 0x21, 0x21],
              ''Successfully processed.pdf'' \<mapsto> [0x48, 0x54, 0x4D, 0x4C, 0x21, 0x21],
              ''scan.pdf'' \<mapsto> test_pdf,
              ''report.docx'' \<mapsto> test_docx_bytes]"

definition test_env :: env where
  "test_env = \<lparr>
     fs = test_fs,
     pypdf2_reader = (\<lambda>bs. Inl (Exception ''EOF marker not found'')),
     pypdf_reader = (\<lambda>bs. if bs = test_pdf then Inr [Inr (Some '' ''), Inr None]
                             else Inl (Exception ''EOF marker not found'')),
     docx_document = (\<lambda>bs. if bs = test_docx_bytes then Inr test_docx
                              else Inl (Exception ''File is not a zip file'')),
     decode_utf8 = ascii_decoder,
     decode_utf16 = (\<lambda>bs. Inl (UnicodeDecodeError ''BOM not found'')),
     decode_cp1252 = (\<lambda>bs. Inl (UnicodeDecodeError ''character maps to undefined'')),
     encode = (\<lambda>xs. Inr (map (\<lambda>x. [1]) xs)),
     client_upsert = (\<lambda>coll ps. Inr (coll @ ps)),
     client_search = ref_search,
     uuid4 = (\<lambda>n. ''uuid-'' @ str_of_nat n),
     now_isoformat = (\<lambda>n. ''2024-01-01T00:00:0'' @ str_of_nat n),
     chat_completions_create = (\<lambda>model system_prompt user_prompt max_tokens temperature.
                                  Inr [Some '' It says hi. '']),
     max_file_size_mb = 50,
     config_chunk_size = 500,
     config_chunk_overlap = 50,
     groq_model = ''llama3-8b-8192''\<rparr>"

definition test_state :: state where
  "test_state = \<lparr>collection = [], encode_calls = [], uuid_counter = 0, clock_reads = 0,
                  conversation_history = []\<rparr>"

text \<open>A collection of four points, and the state that holds it.\<close>

definition test_point :: "string \<Rightarrow> real \<Rightarrow> point" where
  "test_point t x = \<lparr>point_id = t, vector = [x], payload = [''text'' \<mapsto> VStr t]\<rparr>"

definition test_collection :: "point list" where
  "test_collection =
     [test_point ''half'' (1 / 2), test_point ''best'' 1, test_point ''good'' (19 / 20),
      test_point ''fine'' (99 / 100)]"

definition test_store_state :: state where
  "test_store_state = \<lparr>collection = test_collection, encode_calls = [], uuid_counter = 4,
                        clock_reads = 0, conversation_history = []\<rparr>"

text \<open>The double with a language model that is out of service.\<close>

definition failing_llm_env :: env where
  "failing_llm_env = test_env\<lparr>chat_completions_create :=
     (\<lambda>model system_prompt user_prompt max_tokens temperature.
        Inl (Exception ''rate limit exceeded''))\<rparr>"



text \<open>The system prompt when the search finds nothing.\<close>

definition test_prompt :: string where
  "test_prompt = ''You are an AI research assistant. Use the following context to answer the question.''
                      @ [CHR 0x0A]
                      @ ''If the context is not sufficient, say so clearly instead of guessing.''
                      @ [CHR 0x0A] @ ''Context:'' @ [CHR 0x0A] @ ''No relevant context found.''"

text \<open>The double with a language model whose response has one choice without content.\<close>

definition no_content_env :: env where
  "no_content_env = test_env\<lparr>chat_completions_create :=
     (\<lambda>model system_prompt user_prompt max_tokens temperature. Inr [None])\<rparr>"


section \<open>Properties of the chunker\<close>

subsection \<open>Words, joining and splitting\<close>

lemma words_acc_all_words:
  "cur = [] \<or> is_word cur \<Longrightarrow> list_all is_word (words_acc cur s)"
  by (induction s arbitrary: cur) (auto simp: is_word_def)

lemma str_split_all_words: "list_all is_word (str_split s)"
  by (simp add: str_split_def words_acc_all_words)

lemma words_acc_append_word:
  "list_all (\<lambda>c. \<not> is_space c) w \<Longrightarrow> words_acc cur (w @ rest) = words_acc (cur @ w) rest"
  by (induction w arbitrary: cur) auto

lemma str_split_join:
  "list_all is_word ws \<Longrightarrow> str_split (str_join '' '' ws) = ws"
proof (induction ws rule: induct_list012)
  case 1
  then show ?case by (simp add: str_split_def)
next
  case (2 x)
  then have "words_acc [] (x @ []) = words_acc ([] @ x) []"
    by (intro words_acc_append_word) (simp add: is_word_def)
  with 2 show ?case by (simp add: str_split_def is_word_def)
next
  case (3 x y ys)
  then have w: "list_all (\<lambda>c. \<not> is_space c) x" and ne: "x \<noteq> []"
    by (simp_all add: is_word_def)
  have sp: "is_space CHR '' ''" by (simp add: is_space_def)
  have "words_acc [] (x @ '' '' @ str_join '' '' (y # ys)) = words_acc ([] @ x) ('' '' @ str_join '' '' (y # ys))"
    using w by (rule words_acc_append_word)
  also have "\<dots> = x # words_acc [] (str_join '' '' (y # ys))"
    using ne sp by simp
  finally show ?case using 3 by (simp add: str_split_def)
qed

lemma str_strip_id:
  "s \<noteq> [] \<Longrightarrow> \<not> is_space (hd s) \<Longrightarrow> \<not> is_space (last s) \<Longrightarrow> str_strip s = s"
proof -
  assume a: "s \<noteq> []" "\<not> is_space (hd s)" "\<not> is_space (last s)"
  then have "dropWhile is_space s = s" by (cases s) auto
  moreover have "dropWhile is_space (rev s) = rev s"
    using a by (cases "rev s") (auto simp: last_rev hd_rev dest: arg_cong[where f=hd])
  ultimately show ?thesis by (simp add: str_strip_def)
qed

lemma str_join_words_ends:
  "list_all is_word ws \<Longrightarrow> ws \<noteq> [] \<Longrightarrow>
     str_join '' '' ws \<noteq> [] \<and> \<not> is_space (hd (str_join '' '' ws)) \<and> \<not> is_space (last (str_join '' '' ws))"
proof (induction ws rule: induct_list012)
  case 1
  then show ?case by simp
next
  case (2 x)
  then show ?case by (cases x) (auto simp: is_word_def list_all_iff)
next
  case (3 x y ys)
  then show ?case by (cases x) (auto simp: is_word_def list_all_iff)
qed

lemma str_strip_join_words:
  "list_all is_word ws \<Longrightarrow> ws \<noteq> [] \<Longrightarrow>
     str_strip (str_join '' '' ws) = str_join '' '' ws \<and> str_join '' '' ws \<noteq> []"
  using str_join_words_ends[of ws] str_strip_id by blast


subsection \<open>The loop yields the windows\<close>

lemma py_slice_window:
  "0 \<le> i \<Longrightarrow> 0 \<le> sz \<Longrightarrow> py_slice ws i (i + sz) = take (nat sz) (drop (nat i) ws)"
  by (auto simp: py_slice_def clamp_index_def Let_def min_def nat_diff_distrib nat_add_distrib)

lemma chunk_loop_step:
  assumes "list_all is_word ws" "0 < sz" "0 \<le> i" "i < int (length ws)"
  shows "chunk_loop ws sz (i # is) acc =
           (if i + sz \<ge> int (length ws) then acc @ [str_join '' '' (take (nat sz) (drop (nat i) ws))]
            else chunk_loop ws sz is (acc @ [str_join '' '' (take (nat sz) (drop (nat i) ws))]))"
proof -
  define w where "w = take (nat sz) (drop (nat i) ws)"
  have "set w \<subseteq> set ws"
    unfolding w_def by (meson set_take_subset set_drop_subset subset_trans)
  then have w_words: "list_all is_word w"
    using assms(1) by (auto simp: list_all_iff)
  have w_ne: "w \<noteq> []" using assms unfolding w_def by auto
  have strip: "str_strip (str_join '' '' w) = str_join '' '' w" "str_join '' '' w \<noteq> []"
    using str_strip_join_words[OF w_words w_ne] by auto
  have slice: "py_slice ws i (i + sz) = w"
    unfolding w_def using assms by (intro py_slice_window) auto
  show ?thesis
    unfolding w_def[symmetric] by (simp add: slice strip Let_def)
qed

lemma chunk_loop_windows:
  assumes "list_all is_word ws" "0 < step" "step \<le> sz" "0 \<le> i" "i < int (length ws)"
  shows "chunk_loop ws sz (range_up i (int (length ws)) step) acc =
           acc @ map (str_join '' '') (windows ws (nat sz) (nat step) (nat i))"
  using assms
proof (induction i "int (length ws)" step arbitrary: acc rule: range_up.induct)
  case (1 i step)
  have r: "range_up i (int (length ws)) step = i # range_up (i + step) (int (length ws)) step"
    using 1 by (subst range_up.simps) simp
  have pos: "0 < sz" using 1 by linarith
  note stp = chunk_loop_step[OF 1(2) pos 1(5) 1(6)]
  show ?case
  proof (cases "i + sz \<ge> int (length ws)")
    case True
    then have "\<not> (nat i + nat sz < length ws)" using 1 by linarith
    then have "windows ws (nat sz) (nat step) (nat i) = [take (nat sz) (drop (nat i) ws)]"
      by (subst windows.simps) simp
    with True show ?thesis unfolding r stp by simp
  next
    case False
    then have lt: "nat i + nat sz < length ws" using 1 by linarith
    then have win: "windows ws (nat sz) (nat step) (nat i) =
            take (nat sz) (drop (nat i) ws) # windows ws (nat sz) (nat step) (nat i + nat step)"
      using 1 by (subst windows.simps) simp
    have ih: "chunk_loop ws sz (range_up (i + step) (int (length ws)) step)
            (acc @ [str_join '' '' (take (nat sz) (drop (nat i) ws))]) =
          (acc @ [str_join '' '' (take (nat sz) (drop (nat i) ws))]) @
            map (str_join '' '') (windows ws (nat sz) (nat step) (nat (i + step)))"
      using 1 False by (intro 1(1)) auto
    have "nat (i + step) = nat i + nat step" using 1 by (simp add: nat_add_distrib)
    with ih False show ?thesis unfolding r stp win by simp
  qed
qed

lemma windows_cover:
  "0 < step \<Longrightarrow> step \<le> sz \<Longrightarrow> i < length ws \<Longrightarrow>
     concat (map (drop (sz - step)) (windows ws sz step i)) = drop (i + (sz - step)) ws"
proof (induction ws sz step i rule: windows.induct)
  case (1 ws sz step i)
  show ?case
  proof (cases "i + sz < length ws")
    case True
    then have win: "windows ws sz step i = take sz (drop i ws) # windows ws sz step (i + step)"
      using 1 by (subst windows.simps) simp
    have ih: "concat (map (drop (sz - step)) (windows ws sz step (i + step))) = drop (i + step + (sz - step)) ws"
      using 1 True by auto
    have a: "drop (sz - step) (take sz (drop i ws)) = take step (drop (i + (sz - step)) ws)"
      using 1 by (simp add: drop_take add.commute)
    have b: "drop (i + step + (sz - step)) ws = drop step (drop (i + (sz - step)) ws)"
      using 1 by (simp add: add.commute add.left_commute)
    show ?thesis by (simp add: win ih a b del: drop_drop)
  next
    case False
    then have win: "windows ws sz step i = [take sz (drop i ws)]"
      by (subst windows.simps) simp
    have "take sz (drop i ws) = drop i ws" using False by simp
    then show ?thesis by (simp add: win add.commute)
  qed
qed

lemma windows_nth:
  "0 < step \<Longrightarrow> k < length (windows ws sz step i) \<Longrightarrow>
     windows ws sz step i ! k = take sz (drop (i + k * step) ws) \<and>
     (if Suc k < length (windows ws sz step i) then i + k * step + sz < length ws
      else length ws \<le> i + k * step + sz)"
proof (induction ws sz step i arbitrary: k rule: windows.induct)
  case (1 ws sz step i)
  show ?case
  proof (cases "i + sz < length ws")
    case True
    then have win: "windows ws sz step i = take sz (drop i ws) # windows ws sz step (i + step)"
      using 1 by (subst windows.simps) simp
    have ne: "windows ws sz step (i + step) \<noteq> []"
      by (subst windows.simps) simp
    show ?thesis
    proof (cases k)
      case 0
      then show ?thesis using True ne by (simp add: win)
    next
      case (Suc j)
      then have "j < length (windows ws sz step (i + step))" using 1(3) by (simp add: win)
      from 1(1)[OF _ 1(2) this] 1(2) True
      have "windows ws sz step (i + step) ! j = take sz (drop (i + step + j * step) ws)"
        and "Suc j < length (windows ws sz step (i + step)) \<Longrightarrow> i + step + j * step + sz < length ws"
        and "\<not> Suc j < length (windows ws sz step (i + step)) \<Longrightarrow> length ws \<le> i + step + j * step + sz"
        by (auto split: if_splits)
      moreover have "i + Suc j * step = i + step + j * step" by simp
      ultimately show ?thesis unfolding win Suc by (auto simp: add.assoc simp del: mult_Suc)
    qed
  next
    case False
    then have win: "windows ws sz step i = [take sz (drop i ws)]"
      by (subst windows.simps) simp
    with 1(3) False show ?thesis by simp
  qed
qed


lemma str_strip_empty_all_space:
  assumes "str_strip s = []"
  shows "list_all is_space s"
proof -
  have "dropWhile is_space (rev (dropWhile is_space s)) = []"
    using assms by (simp add: str_strip_def)
  then have all: "\<forall>c \<in> set (dropWhile is_space s). is_space c"
    by (simp add: dropWhile_eq_Nil_conv)
  have "dropWhile is_space s = []"
  proof (cases "dropWhile is_space s")
    case Nil
    then show ?thesis .
  next
    case (Cons c cs)
    then have "\<not> is_space c" using hd_dropWhile[of is_space s] by simp
    moreover have "is_space c" using all Cons by simp
    ultimately show ?thesis by simp
  qed
  then show ?thesis by (simp add: dropWhile_eq_Nil_conv list_all_iff)
qed

lemma words_acc_all_space:
  "list_all is_space s \<Longrightarrow> words_acc [] s = []"
  by (induction s) auto

lemma str_split_blank: "str_strip s = [] \<Longrightarrow> str_split s = []"
  by (simp add: str_split_def words_acc_all_space str_strip_empty_all_space)

lemma windows_nonempty: "windows ws sz step i \<noteq> []"
  by (subst windows.simps) simp

lemma chunk_text_long:
  assumes ov: "0 \<le> overlap" "overlap < chunk_size"
    and long: "chunk_size < int (length (str_split text))"
  shows "chunk_text text chunk_size overlap =
           Inr (map (str_join '' '')
                  (windows (str_split text) (nat chunk_size) (nat (chunk_size - overlap)) 0))"
proof -
  have "str_split text \<noteq> []" using ov long by auto
  then have nb: "str_strip text \<noteq> []" using str_split_blank by blast
  have "chunk_loop (str_split text) chunk_size
          (range_up 0 (int (length (str_split text))) (chunk_size - overlap)) [] =
        [] @ map (str_join '' '')
          (windows (str_split text) (nat chunk_size) (nat (chunk_size - overlap)) (nat 0))"
    using ov long by (intro chunk_loop_windows str_split_all_words) auto
  then show ?thesis
    using ov long nb by (simp add: chunk_text_def py_range_def Let_def)
qed

lemma windows_subset:
  "w \<in> set (windows ws sz step i) \<Longrightarrow> set w \<subseteq> set ws"
proof (induction ws sz step i rule: windows.induct)
  case (1 ws sz step i)
  have sub: "set (take sz (drop i ws)) \<subseteq> set ws"
    by (meson set_take_subset set_drop_subset subset_trans)
  show ?case
  proof (cases "0 < step \<and> i + sz < length ws")
    case True
    then have "windows ws sz step i = take sz (drop i ws) # windows ws sz step (i + step)"
      by (subst windows.simps) simp
    with 1 True sub show ?thesis by auto
  next
    case False
    then have "windows ws sz step i = [take sz (drop i ws)]"
      by (subst windows.simps) auto
    with 1(2) sub show ?thesis by simp
  qed
qed

lemma split_join_windows:
  assumes "list_all is_word ws"
  shows "map (\<lambda>d. drop k (str_split d)) (map (str_join '' '') (windows ws sz step i)) =
         map (drop k) (windows ws sz step i)"
proof -
  have "str_split (str_join '' '' w) = w" if "w \<in> set (windows ws sz step i)" for w
  proof -
    have "set w \<subseteq> set ws" using that by (rule windows_subset)
    then have "list_all is_word w" using assms by (auto simp: list_all_iff)
    then show ?thesis by (rule str_split_join)
  qed
  then show ?thesis by simp
qed

lemma reassemble_windows:
  assumes "list_all is_word ws" "0 < step" "step \<le> sz"
  shows "reassemble (sz - step) (map (str_join '' '') (windows ws sz step 0)) = ws"
proof (cases "sz < length ws")
  case True
  then have win: "windows ws sz step 0 = take sz ws # windows ws sz step step"
    using assms by (subst windows.simps) simp
  have "set (take sz ws) \<subseteq> set ws" by (rule set_take_subset)
  then have "list_all is_word (take sz ws)" using assms(1) by (auto simp: list_all_iff)
  then have first: "str_split (str_join '' '' (take sz ws)) = take sz ws"
    by (rule str_split_join)
  have "concat (map (drop (sz - step)) (windows ws sz step step)) = drop (step + (sz - step)) ws"
    using assms True by (intro windows_cover) auto
  then have rest: "concat (map (drop (sz - step)) (windows ws sz step step)) = drop sz ws"
    using assms by simp
  show ?thesis
    unfolding reassemble_def win
    by (simp add: first split_join_windows[OF assms(1)] rest del: map_map)
next
  case False
  then have win: "windows ws sz step 0 = [take sz ws]"
    by (subst windows.simps) simp
  have "take sz ws = ws" using False by simp
  then show ?thesis
    unfolding reassemble_def win using str_split_join[OF assms(1)] by simp
qed

section \<open>The test double at concrete inputs\<close>

lemmas str_eval = str_strip_def str_split_def is_space_def str_lower_def char_lower_def
  path_suffix_def path_name_def char_of_def bit_Suc_0_iff Let_def

lemma test_env_sel [simp]:
  "fs test_env = test_fs"
  "pypdf2_reader test_env = (\<lambda>bs. Inl (Exception ''EOF marker not found''))"
  "pypdf_reader test_env = (\<lambda>bs. if bs = test_pdf then Inr [Inr (Some '' ''), Inr None]
                             else Inl (Exception ''EOF marker not found''))"
  "docx_document test_env = (\<lambda>bs. if bs = test_docx_bytes then Inr test_docx
                              else Inl (Exception ''File is not a zip file''))"
  "decode_utf8 test_env = ascii_decoder"
  "decode_utf16 test_env = (\<lambda>bs. Inl (UnicodeDecodeError ''BOM not found''))"
  "decode_cp1252 test_env = (\<lambda>bs. Inl (UnicodeDecodeError ''character maps to undefined''))"
  "encode test_env = (\<lambda>xs. Inr (map (\<lambda>x. [1]) xs))"
  "client_upsert test_env = (\<lambda>coll ps. Inr (coll @ ps))"
  "client_search test_env = ref_search"
  "uuid4 test_env = (\<lambda>n. ''uuid-'' @ str_of_nat n)"
  "now_isoformat test_env = (\<lambda>n. ''2024-01-01T00:00:0'' @ str_of_nat n)"
  "chat_completions_create test_env =
     (\<lambda>model system_prompt user_prompt max_tokens temperature. Inr [Some '' It says hi. ''])"
  "max_file_size_mb test_env = 50"
  "config_chunk_size test_env = 500"
  "config_chunk_overlap test_env = 50"
  "groq_model test_env = ''llama3-8b-8192''"
  by (simp_all add: test_env_def)

lemma test_file_types:
  "str_lower (path_suffix ''empty.txt'') = ''.txt''"
  "str_lower (path_suffix ''notes.txt'') = ''.txt''"
  "str_lower (path_suffix ''cafe.txt'') = ''.txt''"
  "str_lower (path_suffix ''blank.txt'') = ''.txt''"
  "str_lower (path_suffix ''bad.pdf'') = ''.pdf''"
  "str_lower (path_suffix ''Successfully processed.pdf'') = ''.pdf''"
  "str_lower (path_suffix ''scan.pdf'') = ''.pdf''"
  "str_lower (path_suffix ''report.docx'') = ''.docx''"
  by (simp_all add: str_eval)

lemma test_txt_empty:
  "extract_txt_text test_env ''empty.txt'' =
     Inr ([], [''encoding'' \<mapsto> VStr ''utf-8'', ''lines'' \<mapsto> VInt 0,
               ''method'' \<mapsto> VStr ''plain_text''])"
  by (simp add: extract_txt_text_def test_fs_def)

lemma test_txt_notes:
  "extract_txt_text test_env ''notes.txt'' =
     Inr (''hi you'', [''encoding'' \<mapsto> VStr ''utf-8'', ''lines'' \<mapsto> VInt 1,
                       ''method'' \<mapsto> VStr ''plain_text''])"
  by (simp add: extract_txt_text_def test_fs_def encodings_def read_text_def decode_def
      ascii_decoder_def decode_latin1_def str_eval str_splitlines_def is_linebreak_def)

lemma test_txt_cafe:
  "extract_txt_text test_env ''cafe.txt'' =
     Inr ([CHR ''c'', CHR ''a'', CHR ''f'', CHR 0xE9],
          [''encoding'' \<mapsto> VStr ''latin-1'', ''lines'' \<mapsto> VInt 1,
           ''method'' \<mapsto> VStr ''plain_text''])"
  by (simp add: extract_txt_text_def test_fs_def encodings_def read_text_def decode_def
      ascii_decoder_def decode_latin1_def str_eval str_splitlines_def is_linebreak_def)

lemma test_txt_blank:
  "extract_txt_text test_env ''blank.txt'' =
     Inr ([], [''encoding'' \<mapsto> VStr ''utf-8'', ''lines'' \<mapsto> VInt 1,
               ''method'' \<mapsto> VStr ''plain_text''])"
  by (simp add: extract_txt_text_def test_fs_def encodings_def read_text_def decode_def
      ascii_decoder_def decode_latin1_def str_eval str_splitlines_def is_linebreak_def)

lemma test_pdf_bad:
  "extract_pdf_text test_env ''bad.pdf'' =
     Inl (Exception ''File is not a valid PDF (missing PDF header)'')"
  "extract_pdf_text test_env ''Successfully processed.pdf'' =
     Inl (Exception ''File is not a valid PDF (missing PDF header)'')"
  by (simp_all add: extract_pdf_text_def test_fs_def pdf_magic_def)

lemmas extract_eval = extract_text_def validate_file_type_def validate_file_size_def
  supported_file_types_def extract_by_type_def test_file_types test_fs_def

lemma test_extract_notes:
  "extract_text test_env ''notes.txt'' ''notes.txt'' =
     \<lparr>er_success = True, er_text = ''hi you'', er_filename = ''notes.txt'',
      er_file_type = ''.txt'', er_error = None,
      er_metadata = [''encoding'' \<mapsto> VStr ''utf-8'', ''lines'' \<mapsto> VInt 1,
                     ''method'' \<mapsto> VStr ''plain_text'']\<rparr>"
  by (simp add: extract_eval test_txt_notes str_eval)

lemma test_extract_bad_pdf:
  "extract_text test_env ''bad.pdf'' ''bad.pdf'' =
     \<lparr>er_success = False, er_text = [], er_filename = ''bad.pdf'', er_file_type = ''.pdf'',
      er_error = Some ''File is not a valid PDF (missing PDF header)'',
      er_metadata = Map.empty\<rparr>"
  by (simp add: extract_eval test_pdf_bad)

section \<open>Properties of the Word extraction\<close>

lemma str_strip_all_space:
  "list_all is_space s \<Longrightarrow> str_strip s = []"
proof -
  assume "list_all is_space s"
  then have d: "dropWhile is_space s = []"
    by (induction s) auto
  show ?thesis unfolding str_strip_def d by simp
qed

lemma str_strip_empty_iff: "str_strip s = [] \<longleftrightarrow> list_all is_space s"
  using str_strip_all_space str_strip_empty_all_space by blast

lemma paragraph_loop_render:
  "paragraph_loop ps acc n =
     (acc @ render_paragraphs ps, n + length (filter (\<lambda>p. str_strip p \<noteq> []) ps))"
  by (induction ps arbitrary: acc n) (simp_all add: render_paragraphs_def)

lemma cell_loop_cells: "cell_loop cells row_text = row_text @ row_cells cells"
  by (induction cells arbitrary: row_text) (simp_all add: row_cells_def Let_def)

lemma row_loop_render: "row_loop rows acc = acc @ concat (map render_row rows)"
  by (induction rows arbitrary: acc) (simp_all add: render_row_def cell_loop_cells Let_def)

lemma table_loop_render:
  "table_loop ts n acc = (acc @ render_tables n ts, n + length ts)"
proof (induction ts arbitrary: n acc)
  case Nil
  then show ?case by (simp add: render_tables_def)
next
  case (Cons t ts)
  then show ?case
    by (simp add: render_tables_def render_table_def table_marker_def row_loop_render Let_def)
qed

lemma docx_collect_render:
  "docx_collect doc =
     (if str_strip (render_docx doc) = [] then Inl (Exception ''No text found in DOCX document'')
      else Inr (str_strip (render_docx doc), docx_metadata doc))"
  by (simp add: docx_collect_def paragraph_loop_render table_loop_render render_docx_def
      docx_metadata_def)

lemma render_docx_blank_iff:
  "str_strip (render_docx doc) = [] \<longleftrightarrow>
     tables doc = [] \<and> list_all (\<lambda>p. str_strip p = []) (paragraphs doc)"
proof
  assume blank: "str_strip (render_docx doc) = []"
  then have sp: "list_all is_space (render_docx doc)" by (simp add: str_strip_empty_iff)
  have no_tables: "tables doc = []"
  proof (cases "tables doc")
    case Nil
    then show ?thesis .
  next
    case (Cons t ts)
    then have "CHR ''-'' \<in> set (render_docx doc)"
      by (simp add: render_docx_def render_tables_def render_table_def table_marker_def
          enumerate_simps)
    moreover have "\<not> is_space CHR ''-''" by (simp add: is_space_def)
    ultimately show ?thesis using sp by (auto simp: list_all_iff)
  qed
  have "str_strip p = []" if "p \<in> set (paragraphs doc)" for p
  proof (rule ccontr)
    assume ne: "str_strip p \<noteq> []"
    then have "set p \<subseteq> set (render_docx doc)"
      using that by (auto simp: render_docx_def render_paragraphs_def)
    then have "list_all is_space p" using sp by (auto simp: list_all_iff)
    then show False using ne str_strip_all_space by blast
  qed
  with no_tables show "tables doc = [] \<and> list_all (\<lambda>p. str_strip p = []) (paragraphs doc)"
    by (simp add: list_all_iff)
next
  assume a: "tables doc = [] \<and> list_all (\<lambda>p. str_strip p = []) (paragraphs doc)"
  then have "filter (\<lambda>p. str_strip p \<noteq> []) (paragraphs doc) = []"
    by (auto simp: list_all_iff filter_empty_conv)
  then have "render_docx doc = []"
    using a by (simp add: render_docx_def render_paragraphs_def render_tables_def)
  then show "str_strip (render_docx doc) = []" by (simp add: str_strip_def)
qed

section \<open>Properties of the vector database\<close>

lemma format_loop_scores:
  "format_loop rs results = Inr out \<Longrightarrow>
     map sr_score out = map sr_score results @ map sp_score rs"
  by (induction rs arbitrary: results) (auto split: option.splits)

lemma search_similar_scores:
  "\<exists>rs. map sr_score (fst (search_similar E st query limit threshold flt)) = map sp_score rs
     \<and> (rs = [] \<or> (\<exists>coll v. client_search E coll v limit (build_filter flt) threshold = Inr rs))"
proof -
  have "\<exists>rs. map sr_score out = map sp_score rs
          \<and> (rs = [] \<or> (\<exists>coll v. client_search E coll v limit (build_filter flt) threshold = Inr rs))"
    if "client_search E coll v limit (build_filter flt) threshold = Inr found"
      and "format_loop found [] = Inr out" for coll v found out
    using that format_loop_scores[of found "[]" out] by auto
  then show ?thesis
    by (auto simp: search_similar_def Let_def split: sum.splits list.splits)
qed

lemma search_similar_state:
  "snd (search_similar E st query limit threshold flt) =
     (if str_strip query = [] then st
      else st\<lparr>encode_calls := encode_calls st @ [[query]]\<rparr>)"
  by (simp add: search_similar_def Let_def split: sum.splits list.splits)

lemma ref_search_contract: "search_contract (E\<lparr>client_search := ref_search\<rparr>)"
  unfolding search_contract_def
proof (intro allI impI)
  fix coll v limit flt threshold rs
  assume a: "client_search (E\<lparr>client_search := ref_search\<rparr>) coll v limit flt threshold = Inr rs"
  define xs where "xs = filter (\<lambda>r. threshold \<le> sp_score r)
      (map (\<lambda>p. \<lparr>sp_payload = payload p, sp_score = ref_score v p\<rparr>)
         (filter (ref_matches flt) coll))"
  have rs: "rs = take (nat limit) (rev (sort_key sp_score xs))"
    using a by (simp add: ref_search_def xs_def)
  have len: "int (length rs) \<le> max 0 limit"
    unfolding rs by simp
  have "set rs \<subseteq> set xs"
    unfolding rs using set_take_subset[of "nat limit" "rev (sort_key sp_score xs)"] by simp
  then have thr: "\<forall>r \<in> set rs. threshold \<le> sp_score r"
    by (auto simp: xs_def)
  have "sorted (map sp_score (sort_key sp_score xs))" by (rule sorted_sort_key)
  then have "sorted_wrt (\<lambda>a b. sp_score a \<le> sp_score b) (sort_key sp_score xs)"
    by (simp add: sorted_wrt_map)
  then have "sorted_wrt (\<lambda>a b. sp_score b \<le> sp_score a) (rev (sort_key sp_score xs))"
    by (simp add: sorted_wrt_rev)
  then have srt: "sorted_wrt (\<lambda>a b. sp_score b \<le> sp_score a) rs"
    unfolding rs by (rule sorted_wrt_take)
  from len thr srt
  show "int (length rs) \<le> max 0 limit \<and> (\<forall>r \<in> set rs. threshold \<le> sp_score r)
          \<and> sorted_wrt (\<lambda>a b. sp_score b \<le> sp_score a) rs"
    by blast
qed






subsection \<open>The reference store at concrete inputs\<close>

lemma test_env_contract: "search_contract test_env"
proof -
  have e: "test_env\<lparr>client_search := ref_search\<rparr> = test_env"
    by (simp add: test_env_def)
  show ?thesis using ref_search_contract[of test_env] unfolding e .
qed

lemma test_search:
  "search_similar test_env test_store_state ''hi'' 2 (9 / 10) None =
     ([\<lparr>sr_text = VStr ''best'', sr_score = 1, sr_document_name = VStr ''unknown'',
         sr_document_id = VStr ''unknown'', sr_chunk_id = VInt 0,
         sr_file_type = VStr ''unknown'', sr_upload_time = VStr ''unknown''\<rparr>,
       \<lparr>sr_text = VStr ''fine'', sr_score = 99 / 100, sr_document_name = VStr ''unknown'',
         sr_document_id = VStr ''unknown'', sr_chunk_id = VInt 0,
         sr_file_type = VStr ''unknown'', sr_upload_time = VStr ''unknown''\<rparr>],
      test_store_state\<lparr>encode_calls := [[''hi'']]\<rparr>)"
  by (simp add: search_similar_def test_store_state_def test_collection_def test_point_def
      ref_search_def ref_score_def ref_matches_def build_filter_def dict_get_def str_eval)



lemma test_uuid: "str_of_nat 0 = ''0''" "str_of_nat 1 = ''1''" "str_of_nat 2 = ''2''" "str_of_nat 3 = ''3''"
  "str_of_nat 5 = ''5''" "str_of_nat 6 = ''6''"
  "str_of_nat (Suc 0) = ''1''" "str_of_nat (Suc (Suc 0)) = ''2''"
  by (simp_all add: str_of_nat.simps char_of_def bit_Suc_0_iff)






section \<open>Properties of the orchestrator\<close>

lemma build_prompts_history:
  "build_prompts E st query = (r, st1) \<Longrightarrow> conversation_history st1 = conversation_history st"
proof -
  assume a: "build_prompts E st query = (r, st1)"
  have "st1 = snd (search_similar E st query 5 0 None)"
    using a by (auto simp: build_prompts_def Let_def split: prod.splits sum.splits if_splits)
  then show ?thesis by (simp add: search_similar_state)
qed

lemma test_blank_search:
  "search_similar E test_state ''hi'' 5 0 None = ([], test_state\<lparr>encode_calls := [[''hi'']]\<rparr>)"
  if "encode E = (\<lambda>xs. Inr (map (\<lambda>x. [1]) xs))" "client_search E = ref_search"
  using that
  by (simp add: search_similar_def test_state_def ref_search_def build_filter_def str_eval)

lemma test_prompts:
  "build_prompts E test_state ''hi'' =
     (Inr (test_prompt, ''Question: hi''), test_state\<lparr>encode_calls := [[''hi'']]\<rparr>)"
  if "encode E = (\<lambda>xs. Inr (map (\<lambda>x. [1]) xs))" "client_search E = ref_search"
  by (simp add: build_prompts_def test_blank_search[OF that] test_prompt_def)

lemma failing_llm_sel:
  "encode failing_llm_env = (\<lambda>xs. Inr (map (\<lambda>x. [1]) xs))"
  "client_search failing_llm_env = ref_search"
  "chat_completions_create failing_llm_env =
     (\<lambda>model system_prompt user_prompt max_tokens temperature.
        Inl (Exception ''rate limit exceeded''))"
  by (simp_all add: failing_llm_env_def test_env_def)

lemma no_content_sel:
  "encode no_content_env = (\<lambda>xs. Inr (map (\<lambda>x. [1]) xs))"
  "client_search no_content_env = ref_search"
  "chat_completions_create no_content_env =
     (\<lambda>model system_prompt user_prompt max_tokens temperature. Inr [None])"
  by (simp_all add: no_content_env_def test_env_def)

lemma test_prompts_env:
  "build_prompts test_env test_state ''hi'' =
     (Inr (test_prompt, ''Question: hi''), test_state\<lparr>encode_calls := [[''hi'']]\<rparr>)"
  "build_prompts failing_llm_env test_state ''hi'' =
     (Inr (test_prompt, ''Question: hi''), test_state\<lparr>encode_calls := [[''hi'']]\<rparr>)"
  "build_prompts no_content_env test_state ''hi'' =
     (Inr (test_prompt, ''Question: hi''), test_state\<lparr>encode_calls := [[''hi'']]\<rparr>)"
  by (simp_all add: test_prompts failing_llm_sel no_content_sel)

subsection \<open>The batch at concrete inputs\<close>

lemma documents_loop_lines:
  "length (fst (documents_loop E files st results n)) = length results + length files"
  by (induction files arbitrary: st results n)
     (auto simp: Let_def split: option.splits prod.splits)

lemma test_chunk_fit:
  "chunk_text ''hi you'' 500 50 = Inr [''hi you'']"
  "chunk_text [CHR ''c'', CHR ''a'', CHR ''f'', CHR 0xE9] 500 50 = Inr [[CHR ''c'', CHR ''a'', CHR ''f'', CHR 0xE9]]"
  by (simp_all add: chunk_text_def str_eval)

lemma test_extract_cafe:
  "extract_text test_env ''cafe.txt'' ''cafe.txt'' =
     \<lparr>er_success = True, er_text = [CHR ''c'', CHR ''a'', CHR ''f'', CHR 0xE9],
      er_filename = ''cafe.txt'', er_file_type = ''.txt'', er_error = None,
      er_metadata = [''encoding'' \<mapsto> VStr ''latin-1'', ''lines'' \<mapsto> VInt 1,
                     ''method'' \<mapsto> VStr ''plain_text'']\<rparr>"
  by (simp add: extract_eval test_txt_cafe str_eval)

lemma test_extract_named_pdf:
  "extract_text test_env ''Successfully processed.pdf'' ''Successfully processed.pdf'' =
     \<lparr>er_success = False, er_text = [], er_filename = ''Successfully processed.pdf'',
      er_file_type = ''.pdf'',
      er_error = Some ''File is not a valid PDF (missing PDF header)'',
      er_metadata = Map.empty\<rparr>"
  by (simp add: extract_eval test_pdf_bad)

lemma test_single_notes:
  "fst (process_single_document test_env st ''notes.txt'' ''notes.txt'') =
     ''[+] Successfully processed '' @ quoted ''notes.txt'' @ '': 1 chunks added (6 characters)''"
  by (simp add: process_single_document_def test_extract_notes add_document_def test_chunk_fit
      opt_get_def Let_def str_eval str_splitlines_def is_linebreak_def check_mark_def
      test_uuid str_of_nat.simps)


lemma test_single_cafe:
  "fst (process_single_document test_env st ''cafe.txt'' ''cafe.txt'') =
     ''[+] Successfully processed '' @ quoted ''cafe.txt'' @ '': 1 chunks added (4 characters)''"
  by (simp add: process_single_document_def test_extract_cafe add_document_def test_chunk_fit
      opt_get_def Let_def str_eval str_splitlines_def is_linebreak_def check_mark_def
      test_uuid str_of_nat.simps)

lemma test_single_named_pdf:
  "process_single_document test_env st ''Successfully processed.pdf'' ''Successfully processed.pdf'' =
     (''[-] Failed to process '' @ quoted ''Successfully processed.pdf''
        @ '': File is not a valid PDF (missing PDF header)'', st)"
  by (simp add: process_single_document_def test_extract_named_pdf cross_mark_def)

lemma test_counted:
  "str_contains (str_lower (fst (process_single_document test_env st ''notes.txt'' ''notes.txt'')))
     ''successfully processed''"
  "str_contains (str_lower (fst (process_single_document test_env st ''cafe.txt'' ''cafe.txt'')))
     ''successfully processed''"
  "str_contains (str_lower (fst (process_single_document test_env st
     ''Successfully processed.pdf'' ''Successfully processed.pdf''))) ''successfully processed''"
  by (simp_all add: test_single_notes test_single_cafe test_single_named_pdf
      quoted_def str_lower_def char_lower_def char_of_def bit_Suc_0_iff)

lemma test_resolve:
  "resolve_upload test_env (PathStr ''notes.txt'') =
     Some (''notes.txt'', ''notes.txt'', [0x68, 0x69, 0x20, 0x79, 0x6F, 0x75])"
  "resolve_upload test_env (PathStr ''cafe.txt'') =
     Some (''cafe.txt'', ''cafe.txt'', [0x63, 0x61, 0x66, 0xE9])"
  "resolve_upload test_env (PathStr ''Successfully processed.pdf'') =
     Some (''Successfully processed.pdf'', ''Successfully processed.pdf'',
           [0x48, 0x54, 0x4D, 0x4C, 0x21, 0x21])"
  by (simp_all add: resolve_upload_def test_fs_def path_name_def)

section \<open>Claims about the chunker\<close>

text \<open>
  Claim C2, as the code has it. A text with no word (empty, or whitespace only) gives no
  chunk. A text with at least one word and at most \<open>chunk_size\<close> words gives exactly one
  chunk, the text itself. A longer text, when \<open>0 \<le> overlap < chunk_size\<close>, gives the windows
  of \<open>chunk_size\<close> words that start every \<open>chunk_size - overlap\<close> words, each joined with
  single spaces, up to and including the first window that reaches the last word: chunk
  \<open>k\<close> holds the words from \<open>k * (chunk_size - overlap)\<close> on, every chunk but the last is a
  full window that ends before the last word, and the last one ends the text. The words
  of the first chunk, followed by the words of each later chunk without its first
  \<open>overlap\<close> ones, are the words of the text, in order.
\<close>

theorem chunk_text_window_coverage:
  "(str_strip text = [] \<longrightarrow> chunk_text text chunk_size overlap = Inr [])
   \<and> (str_strip text \<noteq> [] \<and> int (length (str_split text)) \<le> chunk_size \<longrightarrow>
        chunk_text text chunk_size overlap = Inr [text])
   \<and> (0 \<le> overlap \<and> overlap < chunk_size \<and> chunk_size < int (length (str_split text)) \<longrightarrow>
        (\<exists>chunks. chunk_text text chunk_size overlap = Inr chunks
           \<and> chunks \<noteq> []
           \<and> (\<forall>k < length chunks.
                  chunks ! k = str_join '' ''
                     (take (nat chunk_size) (drop (k * nat (chunk_size - overlap)) (str_split text)))
                  \<and> (if Suc k < length chunks
                      then k * nat (chunk_size - overlap) + nat chunk_size < length (str_split text)
                      else length (str_split text) \<le> k * nat (chunk_size - overlap) + nat chunk_size))
           \<and> reassemble (nat overlap) chunks = str_split text))"
proof (intro conjI impI)
  assume "str_strip text = []"
  then show "chunk_text text chunk_size overlap = Inr []"
    by (simp add: chunk_text_def)
next
  assume "str_strip text \<noteq> [] \<and> int (length (str_split text)) \<le> chunk_size"
  then show "chunk_text text chunk_size overlap = Inr [text]"
    by (simp add: chunk_text_def)
next
  assume a: "0 \<le> overlap \<and> overlap < chunk_size \<and> chunk_size < int (length (str_split text))"
  define ws where "ws = str_split text"
  define sz where "sz = nat chunk_size"
  define step where "step = nat (chunk_size - overlap)"
  define wins where "wins = windows ws sz step 0"
  have step: "0 < step" "step \<le> sz" and ov: "nat overlap = sz - step"
    using a by (auto simp: step_def sz_def)
  have words: "list_all is_word ws" by (simp add: ws_def str_split_all_words)
  have res: "chunk_text text chunk_size overlap = Inr (map (str_join '' '') wins)"
    using a chunk_text_long[of overlap chunk_size "text"]
    by (simp add: wins_def ws_def sz_def step_def)
  have ne: "map (str_join '' '') wins \<noteq> []"
    by (simp add: wins_def windows_nonempty)
  have nth: "\<forall>k < length (map (str_join '' '') wins).
      map (str_join '' '') wins ! k = str_join '' '' (take sz (drop (k * step) ws))
      \<and> (if Suc k < length (map (str_join '' '') wins)
          then k * step + sz < length ws else length ws \<le> k * step + sz)"
  proof (intro allI impI)
    fix k assume "k < length (map (str_join '' '') wins)"
    then have "k < length (windows ws sz step 0)" by (simp add: wins_def)
    from windows_nth[OF step(1) this] show
      "map (str_join '' '') wins ! k = str_join '' '' (take sz (drop (k * step) ws))
      \<and> (if Suc k < length (map (str_join '' '') wins)
          then k * step + sz < length ws else length ws \<le> k * step + sz)"
      using \<open>k < length (windows ws sz step 0)\<close> by (auto simp: wins_def split: if_splits)
  qed
  have re: "reassemble (nat overlap) (map (str_join '' '') wins) = ws"
    unfolding ov wins_def using words step by (rule reassemble_windows)
  show "\<exists>chunks. chunk_text text chunk_size overlap = Inr chunks
           \<and> chunks \<noteq> []
           \<and> (\<forall>k < length chunks.
                  chunks ! k = str_join '' ''
                     (take (nat chunk_size) (drop (k * nat (chunk_size - overlap)) (str_split text)))
                  \<and> (if Suc k < length chunks
                      then k * nat (chunk_size - overlap) + nat chunk_size < length (str_split text)
                      else length (str_split text) \<le> k * nat (chunk_size - overlap) + nat chunk_size))
           \<and> reassemble (nat overlap) chunks = str_split text"
    using res ne nth re unfolding ws_def sz_def step_def by blast
qed

text \<open>The three cases at concrete texts: seven words in windows of three that overlap by
  one, a text that fits, and a text of two spaces.\<close>

theorem chunk_text_window_coverage_witness:
  "str_strip ''a b c d e f g'' \<noteq> [] \<and> (0::int) \<le> 1 \<and> (1::int) < 3
   \<and> 3 < int (length (str_split ''a b c d e f g''))
   \<and> chunk_text ''a b c d e f g'' 3 1 = Inr [''a b c'', ''c d e'', ''e f g'']
   \<and> reassemble (nat 1) [''a b c'', ''c d e'', ''e f g''] = str_split ''a b c d e f g''
   \<and> chunk_text ''a b'' 3 1 = Inr [''a b'']
   \<and> chunk_text ''  '' 3 1 = Inr []"
  using chunk_text_window_coverage[of "''a b c d e f g''" 3 1]
    chunk_text_window_coverage[of "''a b''" 3 1]
    chunk_text_window_coverage[of "''  ''" 3 1]
  by (simp add: chunk_text_def py_range_def range_up.simps py_slice_def clamp_index_def
        reassemble_def str_split_def str_strip_def is_space_def Let_def)

text \<open>
  Claim C2 as it was stated does not hold for a text without words, which has at most
  \<open>chunk_size\<close> words and gives no chunk rather than itself, and does not hold for a
  negative overlap, which is below \<open>chunk_size\<close> and leaves words out: with windows of two
  words and an overlap of \<open>-1\<close> the third and the sixth word are in no chunk.
\<close>

theorem chunk_text_blank_or_gap_counterexample:
  "int (length (str_split '' '')) \<le> 500 \<and> chunk_text '' '' 500 50 \<noteq> Inr ['' '']
   \<and> (-1::int) < 2 \<and> 2 < int (length (str_split ''a b c d e f''))
   \<and> chunk_text ''a b c d e f'' 2 (-1) = Inr [''a b'', ''d e'']
   \<and> reassemble (nat (-1)) [''a b'', ''d e''] \<noteq> str_split ''a b c d e f''"
  by (simp add: chunk_text_def py_range_def range_up.simps py_slice_def clamp_index_def
        reassemble_def str_split_def str_strip_def is_space_def Let_def)

text \<open>
  Claim C3, as the code has it. The chunker does not check that the overlap is below the
  chunk size. With \<open>chunk_size \<le> overlap\<close> it still ends on every text, and what it returns
  is fixed: no chunk for a text without words; the text as its only chunk when the text
  has at most \<open>chunk_size\<close> words; for a longer text the \<open>ValueError\<close> of \<open>range\<close> when the
  stride is zero, and no chunk at all, without an error, when the stride is negative.
\<close>

theorem chunk_text_nonpositive_stride:
  assumes "chunk_size \<le> overlap"
  shows "chunk_text text chunk_size overlap =
           (if str_strip text = [] then Inr []
            else if int (length (str_split text)) \<le> chunk_size then Inr [text]
            else if overlap = chunk_size then Inl (ValueError ''range() arg 3 must not be zero'')
            else Inr [])"
proof -
  have "range_down 0 (int (length (str_split text))) (chunk_size - overlap) = []"
    by (subst range_down.simps) simp
  then show ?thesis
    using assms by (auto simp: chunk_text_def py_range_def Let_def)
qed

theorem chunk_text_nonpositive_stride_witness:
  "(2::int) \<le> 3 \<and> chunk_text ''a b c'' 2 3 = Inr []
   \<and> chunk_text ''a b c'' 2 2 = Inl (ValueError ''range() arg 3 must not be zero'')
   \<and> chunk_text ''a b'' 2 3 = Inr [''a b'']"
  using chunk_text_nonpositive_stride[of 2 3 "''a b c''"]
    chunk_text_nonpositive_stride[of 2 2 "''a b c''"]
    chunk_text_nonpositive_stride[of 2 3 "''a b''"]
  by (simp add: str_split_def str_strip_def is_space_def)

text \<open>
  Claim C3 as it was stated has the chunker reject or clamp such a configuration. With a
  chunk size of 2 and an overlap of 3, a text of three words is not rejected, as no error
  is raised, and the result is not that of a clamped overlap either: each overlap that is
  valid for this chunk size, 0 or 1, gives two chunks, and the code gives none.
\<close>

theorem chunk_text_no_enforcement_counterexample:
  "(2::int) \<le> 3 \<and> chunk_text ''a b c'' 2 3 = Inr []
   \<and> chunk_text ''a b c'' 2 0 = Inr [''a b'', ''c'']
   \<and> chunk_text ''a b c'' 2 1 = Inr [''a b'', ''b c'']"
  by (simp add: chunk_text_def py_range_def range_up.simps range_down.simps py_slice_def
        clamp_index_def str_split_def str_strip_def is_space_def Let_def)

section \<open>Claims about the extractor\<close>

text \<open>
  Claim C9. Whatever the file and the file name, the result of \<open>extract_text\<close> is of one of
  two shapes. When it reports failure, its text is the empty string and its error is a
  string, not \<open>None\<close>. When it reports success, its text is not empty after stripping and
  its error is \<open>None\<close>.
\<close>

theorem extract_text_result_shape:
  "(\<not> er_success (extract_text E file_path filename) \<longrightarrow>
        er_text (extract_text E file_path filename) = []
        \<and> er_error (extract_text E file_path filename) \<noteq> None)
   \<and> (er_success (extract_text E file_path filename) \<longrightarrow>
        str_strip (er_text (extract_text E file_path filename)) \<noteq> []
        \<and> er_error (extract_text E file_path filename) = None)"
  by (simp add: extract_text_def Let_def split: option.split sum.split prod.split)

text \<open>A file that is no PDF under a PDF name fails with its text empty; a text file with
  six letters succeeds.\<close>

theorem extract_text_result_shape_witness:
  "\<not> er_success (extract_text test_env ''bad.pdf'' ''bad.pdf'')
   \<and> er_text (extract_text test_env ''bad.pdf'' ''bad.pdf'') = []
   \<and> er_error (extract_text test_env ''bad.pdf'' ''bad.pdf'') \<noteq> None
   \<and> er_success (extract_text test_env ''notes.txt'' ''notes.txt'')
   \<and> str_strip (er_text (extract_text test_env ''notes.txt'' ''notes.txt'')) \<noteq> []
   \<and> er_error (extract_text test_env ''notes.txt'' ''notes.txt'') = None"
  using extract_text_result_shape[of test_env "''bad.pdf''" "''bad.pdf''"]
    extract_text_result_shape[of test_env "''notes.txt''" "''notes.txt''"]
  by (simp add: test_extract_bad_pdf test_extract_notes)

text \<open>
  Claim C10. For a text file that exists and is not empty, the loop over the encodings
  returns at one of its first three turns: Latin-1, the third, maps every byte to a
  character. So the function does not raise, the branch after the loop (failed to decode
  with any supported encoding) is not reached, and the encoding it reports is \<open>utf-8\<close>,
  \<open>utf-16\<close> or \<open>latin-1\<close>, never \<open>cp1252\<close> or \<open>iso-8859-1\<close>. The file is read as the file
  system has it: a read does not fail once the path exists.
\<close>

theorem txt_encoding_fallback:
  assumes "fs E file_path = Some bs" and "bs \<noteq> []"
  shows "\<exists>text metadata encoding.
           extract_txt_text E file_path = Inr (text, metadata)
           \<and> metadata ''encoding'' = Some (VStr encoding)
           \<and> (encoding = ''utf-8'' \<or> encoding = ''utf-16'' \<or> encoding = ''latin-1'')
           \<and> encoding \<noteq> ''cp1252'' \<and> encoding \<noteq> ''iso-8859-1''"
  using assms
  by (auto simp: extract_txt_text_def encodings_def read_text_def decode_def
        split: sum.splits exc.splits)

text \<open>An ASCII file is read as UTF-8; a file with the byte \<open>0xE9\<close>, which the double's UTF-8
  and UTF-16 decoders refuse, is read as Latin-1.\<close>

theorem txt_encoding_fallback_witness:
  "fs test_env ''notes.txt'' = Some [0x68, 0x69, 0x20, 0x79, 0x6F, 0x75]
   \<and> [0x68, 0x69, 0x20, 0x79, 0x6F, 0x75 :: byte] \<noteq> []
   \<and> (\<exists>text metadata. extract_txt_text test_env ''notes.txt'' = Inr (text, metadata)
         \<and> metadata ''encoding'' = Some (VStr ''utf-8''))
   \<and> fs test_env ''cafe.txt'' = Some [0x63, 0x61, 0x66, 0xE9]
   \<and> (\<exists>text metadata. extract_txt_text test_env ''cafe.txt'' = Inr (text, metadata)
         \<and> metadata ''encoding'' = Some (VStr ''latin-1''))"
  using txt_encoding_fallback[of test_env "''notes.txt''" "[0x68, 0x69, 0x20, 0x79, 0x6F, 0x75]"]
    txt_encoding_fallback[of test_env "''cafe.txt''" "[0x63, 0x61, 0x66, 0xE9]"]
  by (simp add: test_txt_notes test_txt_cafe test_fs_def)

text \<open>
  Claim C4, at the input where the code departs from it. The helper for text files
  returns the empty text for a file of zero bytes and does not raise, as its comment says
  (an empty file is valid for TXT), but \<open>extract_text\<close> then finds the text empty and
  reports failure, with no text and the error for a document without text. A text file
  with whitespace only fails in the same way.
\<close>

theorem extract_text_zero_byte_txt_fails:
  "fs test_env ''empty.txt'' = Some []
   \<and> extract_txt_text test_env ''empty.txt'' =
        Inr ([], [''encoding'' \<mapsto> VStr ''utf-8'', ''lines'' \<mapsto> VInt 0,
                  ''method'' \<mapsto> VStr ''plain_text''])
   \<and> extract_text test_env ''empty.txt'' ''empty.txt'' =
        \<lparr>er_success = False, er_text = [], er_filename = ''empty.txt'', er_file_type = ''.txt'',
         er_error = Some ''No text could be extracted from the document. The file might be scanned, empty, or corrupted.'',
         er_metadata = Map.empty\<rparr>
   \<and> er_success (extract_text test_env ''blank.txt'' ''blank.txt'') = False"
  by (simp add: extract_eval test_txt_empty test_txt_blank)

text \<open>
  Claim C8. For a Word file that exists, is not empty and parses, the text that the loops
  of \<open>_extract_docx_text\<close> collect is the rendering above: each table is its marker
  \<open>--- Table N ---\<close> and then one line for each row that has a non-empty cell, with the
  non-empty cells joined by \<open> | \<close>; a row without one adds nothing. The extraction fails,
  with the error that no text was found, exactly when this collected text is empty after
  stripping, and otherwise returns it stripped, with the counts of the non-empty
  paragraphs and of the tables. As the marker is part of the collected text, nothing was
  collected exactly when the document has no table and no paragraph but blank ones.
\<close>

theorem extract_docx_text_render:
  assumes "fs E file_path = Some bs" and "bs \<noteq> []" and "docx_document E bs = Inr doc"
  shows "extract_docx_text E file_path =
           (if str_strip (render_docx doc) = []
            then Inl (Exception ''No text found in DOCX document'')
            else Inr (str_strip (render_docx doc), docx_metadata doc))
         \<and> ((\<exists>e. extract_docx_text E file_path = Inl e) \<longleftrightarrow> str_strip (render_docx doc) = [])
         \<and> (str_strip (render_docx doc) = [] \<longleftrightarrow>
              tables doc = [] \<and> list_all (\<lambda>p. str_strip p = []) (paragraphs doc))"
proof -
  have found: "str_contains ''No text found in DOCX document'' ''No text found''"
    by simp
  have "docx_try E file_path = docx_collect doc"
    using assms by (simp add: docx_try_def)
  then have res: "extract_docx_text E file_path =
           (if str_strip (render_docx doc) = []
            then Inl (Exception ''No text found in DOCX document'')
            else Inr (str_strip (render_docx doc), docx_metadata doc))"
    using found by (simp add: extract_docx_text_def docx_collect_render)
  then have "(\<exists>e. extract_docx_text E file_path = Inl e) \<longleftrightarrow> str_strip (render_docx doc) = []"
    by simp
  with res render_docx_blank_iff show ?thesis by blast
qed

text \<open>The double's document: three paragraphs, one of them blank, a table of three rows,
  one of them without a non-empty cell, and a table without rows.\<close>

theorem extract_docx_text_render_witness:
  "fs test_env ''report.docx'' = Some test_docx_bytes \<and> test_docx_bytes \<noteq> []
   \<and> docx_document test_env test_docx_bytes = Inr test_docx
   \<and> render_docx test_docx =
        ''Title'' @ [CHR 0x0A] @ ''Body text'' @ [CHR 0x0A]
        @ [CHR 0x0A] @ ''--- Table 1 ---'' @ [CHR 0x0A]
        @ ''a | b'' @ [CHR 0x0A] @ ''c'' @ [CHR 0x0A]
        @ [CHR 0x0A] @ ''--- Table 2 ---'' @ [CHR 0x0A]
   \<and> extract_docx_text test_env ''report.docx'' =
        Inr (''Title'' @ [CHR 0x0A] @ ''Body text'' @ [CHR 0x0A]
             @ [CHR 0x0A] @ ''--- Table 1 ---'' @ [CHR 0x0A]
             @ ''a | b'' @ [CHR 0x0A] @ ''c'' @ [CHR 0x0A]
             @ [CHR 0x0A] @ ''--- Table 2 ---'', docx_metadata test_docx)"
proof -
  have r: "render_docx test_docx =
        ''Title'' @ [CHR 0x0A] @ ''Body text'' @ [CHR 0x0A]
        @ [CHR 0x0A] @ ''--- Table 1 ---'' @ [CHR 0x0A]
        @ ''a | b'' @ [CHR 0x0A] @ ''c'' @ [CHR 0x0A]
        @ [CHR 0x0A] @ ''--- Table 2 ---'' @ [CHR 0x0A]"
    by (simp add: render_docx_def render_paragraphs_def render_tables_def render_table_def
        table_marker_def render_row_def row_cells_def test_docx_def enumerate_simps
        str_of_nat.simps str_eval)
  have f: "fs test_env ''report.docx'' = Some test_docx_bytes" "test_docx_bytes \<noteq> []"
    "docx_document test_env test_docx_bytes = Inr test_docx"
    by (simp_all add: test_fs_def test_docx_bytes_def)
  show ?thesis
    using extract_docx_text_render[OF f] f
    unfolding r by (simp add: str_eval)
qed

section \<open>Claims about the vector database\<close>

text \<open>
  Claim C1. For a query that is empty or has whitespace only, \<open>search_similar\<close> returns the
  empty list and leaves the state as it was: the embedding model is not called. For any
  other query it calls the embedding model once, with the query. Whatever the query, when
  the store's search keeps its contract (at most \<open>limit\<close> points, none scored below the
  threshold, in descending order of score) and \<open>limit\<close> is not negative, the list returned
  has at most \<open>limit\<close> results, none with a score below \<open>score_threshold\<close>, in descending
  order of score: the function passes \<open>limit\<close> and \<open>score_threshold\<close> on unchanged, formats
  the store's results one by one in their order, and returns the empty list on any error.
\<close>

theorem search_similar_results:
  "(str_strip query = [] \<longrightarrow>
       search_similar E st query limit score_threshold filter_conditions = ([], st))
   \<and> (str_strip query \<noteq> [] \<longrightarrow>
       encode_calls (snd (search_similar E st query limit score_threshold filter_conditions)) =
         encode_calls st @ [[query]])
   \<and> (search_contract E \<and> 0 \<le> limit \<longrightarrow>
       int (length (fst (search_similar E st query limit score_threshold filter_conditions))) \<le> limit
       \<and> (\<forall>r \<in> set (fst (search_similar E st query limit score_threshold filter_conditions)).
             score_threshold \<le> sr_score r)
       \<and> sorted_wrt (\<lambda>a b. sr_score b \<le> sr_score a)
             (fst (search_similar E st query limit score_threshold filter_conditions)))"
proof (intro conjI impI)
  assume "str_strip query = []"
  then show "search_similar E st query limit score_threshold filter_conditions = ([], st)"
    by (simp add: search_similar_def)
next
  assume "str_strip query \<noteq> []"
  then show "encode_calls (snd (search_similar E st query limit score_threshold filter_conditions)) =
         encode_calls st @ [[query]]"
    by (simp add: search_similar_state)
next
  assume a: "search_contract E \<and> 0 \<le> limit"
  define out where "out = fst (search_similar E st query limit score_threshold filter_conditions)"
  obtain rs where rs: "map sr_score out = map sp_score rs"
    and src: "rs = [] \<or> (\<exists>coll v. client_search E coll v limit
                 (build_filter filter_conditions) score_threshold = Inr rs)"
    using search_similar_scores[of E st query limit score_threshold filter_conditions]
    unfolding out_def by blast
  have c: "int (length rs) \<le> limit \<and> (\<forall>r \<in> set rs. score_threshold \<le> sp_score r)
        \<and> sorted_wrt (\<lambda>a b. sp_score b \<le> sp_score a) rs"
  proof (cases "rs = []")
    case True
    then show ?thesis using a by simp
  next
    case False
    then obtain coll v where "client_search E coll v limit
        (build_filter filter_conditions) score_threshold = Inr rs"
      using src by blast
    then have "int (length rs) \<le> max 0 limit \<and> (\<forall>r \<in> set rs. score_threshold \<le> sp_score r)
        \<and> sorted_wrt (\<lambda>a b. sp_score b \<le> sp_score a) rs"
      using a unfolding search_contract_def by blast
    then show ?thesis using a by simp
  qed
  have len: "length out = length rs"
    using rs by (metis length_map)
  have thr: "\<forall>r \<in> set out. score_threshold \<le> sr_score r"
  proof
    fix r assume "r \<in> set out"
    then have "sr_score r \<in> set (map sp_score rs)" using rs by (metis imageI set_map)
    then show "score_threshold \<le> sr_score r" using c by auto
  qed
  have "sorted_wrt (\<lambda>x y. y \<le> x) (map sp_score rs)"
    using c by (simp add: sorted_wrt_map)
  then have "sorted_wrt (\<lambda>x y. y \<le> x) (map sr_score out)" using rs by simp
  then have srt: "sorted_wrt (\<lambda>a b. sr_score b \<le> sr_score a) out"
    by (simp add: sorted_wrt_map)
  show "int (length out) \<le> limit" using c len by simp
  show "\<forall>r \<in> set out. score_threshold \<le> sr_score r" by (rule thr)
  show "sorted_wrt (\<lambda>a b. sr_score b \<le> sr_score a) out" by (rule srt)
qed

text \<open>The reference store with four points scored 0.5, 1, 0.95 and 0.99: a blank query
  gives nothing and no call; a limit of 2 and a threshold of 0.9 give the points scored
  1 and 0.99, in this order.\<close>

theorem search_similar_results_witness:
  "str_strip ''  '' = []
   \<and> search_similar test_env test_store_state ''  '' 2 (9 / 10) None = ([], test_store_state)
   \<and> search_contract test_env \<and> (0::int) \<le> 2
   \<and> map sr_text (fst (search_similar test_env test_store_state ''hi'' 2 (9 / 10) None)) =
        [VStr ''best'', VStr ''fine'']
   \<and> map sr_score (fst (search_similar test_env test_store_state ''hi'' 2 (9 / 10) None)) =
        [1, 99 / 100]
   \<and> encode_calls (snd (search_similar test_env test_store_state ''hi'' 2 (9 / 10) None)) =
        [[''hi'']]"
  using search_similar_results[where query = "''  ''" and E = test_env and st = test_store_state
      and limit = 2 and score_threshold = "9 / 10" and filter_conditions = None]
    search_similar_results[where query = "''hi''" and E = test_env and st = test_store_state
      and limit = 2 and score_threshold = "9 / 10" and filter_conditions = None]
    test_env_contract
  by (simp add: test_search str_eval)




section \<open>Claims about the orchestrator\<close>

text \<open>
  Claim C7, as the code has it. Every exception inside \<open>generate_response\<close> ends in the
  same way: the text returned is the cross mark followed by \<open> Error generating response: \<close>
  and the message of the exception, and the conversation history is as it was. This is so
  when composing the prompts raises; when the call of the language model raises; when the
  call returns a response without any choice (an \<open>IndexError\<close>); and when it returns a
  response whose first choice has no content (an \<open>AttributeError\<close>, as \<open>None\<close> cannot be
  stripped). When the call returns a response whose first choice has a content, the
  answer returned is that content stripped, and the history is the old one followed by
  the pair of the query and this answer, and nothing else.
\<close>

theorem generate_response_history:
  "(build_prompts E st query = (Inl e, st1) \<longrightarrow>
      fst (generate_response E st query) =
        cross_mark @ '' Error generating response: '' @ exc_str e
      \<and> conversation_history (snd (generate_response E st query)) = conversation_history st)
   \<and> (build_prompts E st query = (Inr (system_prompt, user_prompt), st1) \<longrightarrow>
      (chat_completions_create E (groq_model E) system_prompt user_prompt 500 (7 / 10) = Inl e' \<longrightarrow>
         fst (generate_response E st query) =
           cross_mark @ '' Error generating response: '' @ exc_str e'
         \<and> conversation_history (snd (generate_response E st query)) = conversation_history st)
      \<and> (chat_completions_create E (groq_model E) system_prompt user_prompt 500 (7 / 10) = Inr [] \<longrightarrow>
         fst (generate_response E st query) =
           cross_mark @ '' Error generating response: list index out of range''
         \<and> conversation_history (snd (generate_response E st query)) = conversation_history st)
      \<and> (chat_completions_create E (groq_model E) system_prompt user_prompt 500 (7 / 10) =
            Inr (None # rest) \<longrightarrow>
         fst (generate_response E st query) =
           cross_mark @ '' Error generating response: '' @ quoted ''NoneType''
             @ '' object has no attribute '' @ quoted ''strip''
         \<and> conversation_history (snd (generate_response E st query)) = conversation_history st)
      \<and> (chat_completions_create E (groq_model E) system_prompt user_prompt 500 (7 / 10) =
            Inr (Some content # rest) \<longrightarrow>
         fst (generate_response E st query) = str_strip content
         \<and> conversation_history (snd (generate_response E st query)) =
              conversation_history st @ [(query, str_strip content)]))"
proof (intro conjI impI)
  assume a: "build_prompts E st query = (Inl e, st1)"
  have h: "conversation_history st1 = conversation_history st"
    using a by (rule build_prompts_history)
  show "fst (generate_response E st query) =
        cross_mark @ '' Error generating response: '' @ exc_str e"
    using a by (simp add: generate_response_def error_response_def)
  show "conversation_history (snd (generate_response E st query)) = conversation_history st"
    using a h by (simp add: generate_response_def)
next
  assume a: "build_prompts E st query = (Inr (system_prompt, user_prompt), st1)"
  have h: "conversation_history st1 = conversation_history st"
    using a by (rule build_prompts_history)
  {
    assume c: "chat_completions_create E (groq_model E) system_prompt user_prompt 500 (7 / 10) = Inl e'"
    show "fst (generate_response E st query) =
           cross_mark @ '' Error generating response: '' @ exc_str e'"
      using a c by (simp add: generate_response_def error_response_def)
    show "conversation_history (snd (generate_response E st query)) = conversation_history st"
      using a c h by (simp add: generate_response_def)
  }
  {
    assume c: "chat_completions_create E (groq_model E) system_prompt user_prompt 500 (7 / 10) = Inr []"
    show "fst (generate_response E st query) =
           cross_mark @ '' Error generating response: list index out of range''"
      using a c by (simp add: generate_response_def error_response_def)
    show "conversation_history (snd (generate_response E st query)) = conversation_history st"
      using a c h by (simp add: generate_response_def)
  }
  {
    assume c: "chat_completions_create E (groq_model E) system_prompt user_prompt 500 (7 / 10) =
            Inr (None # rest)"
    show "fst (generate_response E st query) =
           cross_mark @ '' Error generating response: '' @ quoted ''NoneType''
             @ '' object has no attribute '' @ quoted ''strip''"
      using a c by (simp add: generate_response_def error_response_def)
    show "conversation_history (snd (generate_response E st query)) = conversation_history st"
      using a c h by (simp add: generate_response_def)
  }
  {
    assume c: "chat_completions_create E (groq_model E) system_prompt user_prompt 500 (7 / 10) =
            Inr (Some content # rest)"
    show "fst (generate_response E st query) = str_strip content"
      using a c by (simp add: generate_response_def Let_def)
    show "conversation_history (snd (generate_response E st query)) =
              conversation_history st @ [(query, str_strip content)]"
      using a c h by (simp add: generate_response_def Let_def)
  }
qed

text \<open>With an empty collection: the double's language model answers, and the answer is
  returned and recorded; a language model that raises gives the error message with the
  exception's text and an unchanged, empty history.\<close>

theorem generate_response_history_witness:
  "build_prompts test_env test_state ''hi'' =
     (Inr (test_prompt, ''Question: hi''), test_state\<lparr>encode_calls := [[''hi'']]\<rparr>)
   \<and> chat_completions_create test_env (groq_model test_env) test_prompt ''Question: hi'' 500 (7 / 10)
        = Inr [Some '' It says hi. '']
   \<and> fst (generate_response test_env test_state ''hi'') = ''It says hi.''
   \<and> conversation_history (snd (generate_response test_env test_state ''hi'')) =
        [(''hi'', ''It says hi.'')]
   \<and> chat_completions_create failing_llm_env (groq_model failing_llm_env) test_prompt
        ''Question: hi'' 500 (7 / 10) = Inl (Exception ''rate limit exceeded'')
   \<and> fst (generate_response failing_llm_env test_state ''hi'') =
        ''[-] Error generating response: rate limit exceeded''
   \<and> conversation_history (snd (generate_response failing_llm_env test_state ''hi'')) = []"
proof -
  have h: "conversation_history test_state = []" by (simp add: test_state_def)
  have s: "str_strip '' It says hi. '' = ''It says hi.''" by (simp add: str_eval)
  from generate_response_history[where E = test_env and st = test_state and query = "''hi''"
      and system_prompt = test_prompt and user_prompt = "''Question: hi''"
      and ?st1.0 = "test_state\<lparr>encode_calls := [[''hi'']]\<rparr>"
      and content = "'' It says hi. ''" and rest = "[]"]
    generate_response_history[where E = failing_llm_env and st = test_state and query = "''hi''"
      and system_prompt = test_prompt and user_prompt = "''Question: hi''"
      and ?st1.0 = "test_state\<lparr>encode_calls := [[''hi'']]\<rparr>"
      and e' = "Exception ''rate limit exceeded''"]
  show ?thesis
    by (simp add: test_prompts_env failing_llm_sel h s cross_mark_def)
qed

text \<open>
  Claim C7 as it was stated has the pair appended whenever the call succeeds. A call that
  returns a response whose only choice has no content has not failed, yet the history
  stays empty and the text returned is the error message.
\<close>

theorem generate_response_no_content_counterexample:
  "chat_completions_create no_content_env (groq_model no_content_env) test_prompt
     ''Question: hi'' 500 (7 / 10) = Inr [None]
   \<and> build_prompts no_content_env test_state ''hi'' =
        (Inr (test_prompt, ''Question: hi''), test_state\<lparr>encode_calls := [[''hi'']]\<rparr>)
   \<and> fst (generate_response no_content_env test_state ''hi'') =
        ''[-] Error generating response: '' @ quoted ''NoneType''
          @ '' object has no attribute '' @ quoted ''strip''
   \<and> conversation_history (snd (generate_response no_content_env test_state ''hi'')) = []"
proof -
  have h: "conversation_history test_state = []" by (simp add: test_state_def)
  show ?thesis
    by (simp add: generate_response_def test_prompts_env no_content_sel error_response_def
        cross_mark_def h)
qed

text \<open>
  Claim C6, at an input where the code departs from it. The loop gives every file of a
  batch one status line, whatever happens to the others; that part holds for every batch.
  But a file counts as processed when its status line, in lower case, has the words
  \<open>successfully processed\<close> in it, and the line of a failure quotes the file name. In a
  batch of three where the second file is no PDF (its first bytes are not \<open>%PDF-\<close>) and
  is named \<open>Successfully processed.pdf\<close>, the extraction of the second file fails, its
  line reports the missing PDF header, and the summary counts three files out of three.
\<close>

theorem process_documents_miscounts:
  "length (fst (documents_loop E files st [] 0)) = length files
   \<and> er_success (extract_text test_env ''Successfully processed.pdf''
         ''Successfully processed.pdf'') = False
   \<and> fst (process_documents test_env test_state
         [PathStr ''notes.txt'', PathStr ''Successfully processed.pdf'', PathStr ''cafe.txt'']) =
       str_join [CHR 0x0A]
         [check_mark @ '' Successfully processed '' @ quoted ''notes.txt''
            @ '': 1 chunks added (6 characters)'',
          cross_mark @ '' Failed to process '' @ quoted ''Successfully processed.pdf''
            @ '': File is not a valid PDF (missing PDF header)'',
          check_mark @ '' Successfully processed '' @ quoted ''cafe.txt''
            @ '': 1 chunks added (4 characters)'']
       @ summary 3 3"
proof -
  have n3: "Suc (Suc (Suc 0)) = 3" by simp
  have "fst (process_documents test_env test_state
         [PathStr ''notes.txt'', PathStr ''Successfully processed.pdf'', PathStr ''cafe.txt'']) =
       str_join [CHR 0x0A]
         [check_mark @ '' Successfully processed '' @ quoted ''notes.txt''
            @ '': 1 chunks added (6 characters)'',
          cross_mark @ '' Failed to process '' @ quoted ''Successfully processed.pdf''
            @ '': File is not a valid PDF (missing PDF header)'',
          check_mark @ '' Successfully processed '' @ quoted ''cafe.txt''
            @ '': 1 chunks added (4 characters)'']
       @ summary 3 3"
    apply (simp add: process_documents_def test_resolve case_prod_beta test_counted n3
        del: str_join.simps)
    apply (simp add: test_single_notes test_single_cafe test_single_named_pdf
        check_mark_def cross_mark_def)
    done
  then show ?thesis
    using documents_loop_lines[of E files st "[]" 0]
    by (simp add: test_extract_named_pdf)
qed


end
